theory Spec2Isabelle
  imports Complex_Main "HOL-Library.Char_ord" "HOL-Library.List_Lexorder" "HOL-Library.AList"
begin

section \<open>Python values\<close>

text \<open>
  The program keeps its whole state in \<^verbatim>\<open>self.data\<close>, a Python \<^verbatim>\<open>dict\<close> that is either
  built by the handlers or returned by \<^verbatim>\<open>json.load\<close>. Its values are therefore the values
  that JSON can carry, and nothing in the program checks their shape: a profile read from
  a file can be any such value. The model keeps them untyped.

  A \<^verbatim>\<open>dict\<close> is an association list in insertion order; its keys are strings, since they
  come from JSON or from text fields. Python keeps the keys of a \<^verbatim>\<open>dict\<close> distinct; the
  theorems that depend on that say so with \<open>distinct (map fst d)\<close>.

  Every object in \<^verbatim>\<open>self.data\<close> is created fresh (by \<^verbatim>\<open>json.load\<close>, by a dict or list
  display in a handler) and is stored in one place only, so no two profiles share a list
  and in-place mutation is modelled by rebuilding the value.

  A \<^verbatim>\<open>float\<close> is a double: a rational number that a double can hold (\<open>Fin 0\<close> is the
  positive zero), the negative zero, an infinity, or not-a-number.
  A \<open>char\<close> stands for a code point below 256; the character classes below are the
  Unicode ones for that range.
\<close>

datatype pyfloat = Fin rat | NegZero | PosInf | NegInf | NaN

datatype pyval =
    PNone
  | PBool bool
  | PInt int
  | PFloat pyfloat
  | PStr string
  | PList "pyval list"
  | PDict "(string \<times> pyval) list"

type_synonym dict = "(string \<times> pyval) list"

datatype pyexc = KeyError | TypeError | AttributeError | ValueError

section \<open>Strings\<close>

text \<open>\<^verbatim>\<open>str.isspace\<close> for one character: the ASCII controls 9 to 13 and 28 to 31, the space,
  NEL (133) and the no-break space (160).\<close>

definition isspace :: "char \<Rightarrow> bool" where
  "isspace c \<longleftrightarrow> (of_char c :: nat) \<in> {9, 10, 11, 12, 13, 28, 29, 30, 31, 32, 133, 160}"

text \<open>The decimal digits (category Nd), which \<^verbatim>\<open>int\<close> and \<^verbatim>\<open>float\<close> read.\<close>

definition isdecimal :: "char \<Rightarrow> bool" where
  "isdecimal c \<longleftrightarrow> c \<in> set ''0123456789''"

text \<open>\<^verbatim>\<open>str.isdigit\<close> also holds of the superscript digits (178, 179, 185), which are not
  decimal digits.\<close>

definition isdigit_char :: "char \<Rightarrow> bool" where
  "isdigit_char c \<longleftrightarrow> isdecimal c \<or> (of_char c :: nat) \<in> {178, 179, 185}"

definition isdigit :: "string \<Rightarrow> bool" where
  "isdigit s \<longleftrightarrow> s \<noteq> [] \<and> list_all isdigit_char s"

definition strip :: "string \<Rightarrow> string" where
  "strip s = rev (dropWhile isspace (rev (dropWhile isspace s)))"

definition startswith_minus :: "string \<Rightarrow> bool" where
  "startswith_minus s = (case s of [] \<Rightarrow> False | c # _ \<Rightarrow> c = CHR ''-'')"

text \<open>\<^verbatim>\<open>str.lower\<close> for one character: the letters A to Z and the Latin-1 capitals
  (192 to 222 except the multiplication sign 215) move up by 32.\<close>

definition lower_char :: "char \<Rightarrow> char" where
  "lower_char c =
     (let n = (of_char c :: nat)
      in if (65 \<le> n \<and> n \<le> 90) \<or> (192 \<le> n \<and> n \<le> 222 \<and> n \<noteq> 215) then char_of (n + 32) else c)"

definition lower :: "string \<Rightarrow> string" where
  "lower s = map lower_char s"

section \<open>Reading numbers\<close>

text \<open>
  \<^verbatim>\<open>int(x)\<close> and \<^verbatim>\<open>float(x)\<close> on a string skip surrounding whitespace themselves (the C
  whitespace 9 to 13 and 32, and the non-ASCII spaces), read an optional sign, and
  then digits in which single underscores may stand between two digits. A text they
  do not accept raises \<^verbatim>\<open>ValueError\<close>, here \<open>None\<close>. Python's integers are unbounded,
  but \<^verbatim>\<open>int\<close> refuses a text of more than 4300 digits (the interpreter's default for
  \<^verbatim>\<open>sys.int_info.default_max_str_digits\<close>, which the program does not change), and so does
  the conversion of such an integer to text; \<^verbatim>\<open>float\<close> has no such limit.
\<close>

definition number_space :: "char \<Rightarrow> bool" where
  "number_space c \<longleftrightarrow> (of_char c :: nat) \<in> {9, 10, 11, 12, 13, 32, 133, 160}"

definition number_strip :: "string \<Rightarrow> string" where
  "number_strip s = rev (dropWhile number_space (rev (dropWhile number_space s)))"

text \<open>A digit part \<^verbatim>\<open>digit (["_"] digit)*\<close>: its digits, without the underscores.\<close>

fun digitpart :: "string \<Rightarrow> string option" where
  "digitpart [] = None"
| "digitpart [c] = (if isdecimal c then Some [c] else None)"
| "digitpart (c # d # cs) =
     (if \<not> isdecimal c then None
      else if d = CHR ''_'' then map_option ((#) c) (digitpart cs)
      else map_option ((#) c) (digitpart (d # cs)))"

definition digit_val :: "char \<Rightarrow> int" where
  "digit_val c = of_char c - 48"

definition digits_val :: "string \<Rightarrow> int" where
  "digits_val ds = foldl (\<lambda>a c. 10 * a + digit_val c) 0 ds"

text \<open>An optional sign: whether it is a minus, and the rest.\<close>

fun split_sign :: "string \<Rightarrow> bool \<times> string" where
  "split_sign [] = (False, [])"
| "split_sign (c # cs) =
     (if c = CHR ''-'' then (True, cs) else if c = CHR ''+'' then (False, cs) else (False, c # cs))"

definition int_max_str_digits :: nat where
  "int_max_str_digits = 4300"

definition py_int :: "string \<Rightarrow> int option" where
  "py_int s =
     (case split_sign (number_strip s) of (neg, body) \<Rightarrow>
        (case digitpart body of
           None \<Rightarrow> None
         | Some ds \<Rightarrow>
             if length ds > int_max_str_digits then None
             else Some (if neg then - digits_val ds else digits_val ds)))"

text \<open>
  The mantissa \<^verbatim>\<open>[digitpart] "." digitpart | digitpart ["."]\<close>: the digits before and after
  the point.
\<close>

definition mantissa :: "string \<Rightarrow> (string \<times> string) option" where
  "mantissa m =
     (let ip = takeWhile (\<lambda>c. c \<noteq> CHR ''.'') m; r = dropWhile (\<lambda>c. c \<noteq> CHR ''.'') m
      in case r of
           [] \<Rightarrow> map_option (\<lambda>ds. (ds, [])) (digitpart ip)
         | _ # fp \<Rightarrow>
             if fp = [] then map_option (\<lambda>ds. (ds, [])) (digitpart ip)
             else if ip = [] then map_option (\<lambda>fs. ([], fs)) (digitpart fp)
             else (case (digitpart ip, digitpart fp) of
                     (Some ds, Some fs) \<Rightarrow> Some (ds, fs)
                   | _ \<Rightarrow> None))"

text \<open>The exponent \<^verbatim>\<open>("e" | "E") [sign] digitpart\<close>, or nothing: its value.\<close>

definition exponent :: "string \<Rightarrow> int option" where
  "exponent ex =
     (case ex of
        [] \<Rightarrow> Some 0
      | _ # r \<Rightarrow>
          (case split_sign r of (neg, ds) \<Rightarrow>
             (case digitpart ds of
                None \<Rightarrow> None
              | Some es \<Rightarrow> Some (if neg then - digits_val es else digits_val es))))"

definition scale10 :: "rat \<Rightarrow> int \<Rightarrow> rat" where
  "scale10 r e = (if 0 \<le> e then r * 10 ^ nat e else r / 10 ^ nat (- e))"

text \<open>
  \<^verbatim>\<open>float\<close> keeps the double nearest to the number that the text denotes, the one with the
  even significand when two are as near. A double has a significand of 53 bits; below
  \<open>2\<^sup>-\<^sup>1\<^sup>0\<^sup>2\<^sup>2\<close> the doubles are \<open>2\<^sup>-\<^sup>1\<^sup>0\<^sup>7\<^sup>4\<close> apart, and a number that rounds to \<open>2\<^sup>1\<^sup>0\<^sup>2\<^sup>4\<close> or more
  becomes an infinity. \<open>binade r\<close> is the exponent of the power of two at or below the
  positive number \<open>r\<close>.
\<close>

definition two_pow :: "int \<Rightarrow> rat" where
  "two_pow e = (if 0 \<le> e then 2 ^ nat e else 1 / 2 ^ nat (- e))"

function bit_length :: "int \<Rightarrow> nat" where
  "bit_length n = (if n \<le> 0 then 0 else Suc (bit_length (n div 2)))"
  by pat_completeness auto
termination by (relation "measure nat") auto

declare bit_length.simps [simp del]

definition binade :: "rat \<Rightarrow> int" where
  "binade r =
     (case quotient_of r of (p, q) \<Rightarrow>
        (let e = int (bit_length p) - int (bit_length q)
         in if r < two_pow e then e - 1 else e))"

definition round_half_even :: "rat \<Rightarrow> int" where
  "round_half_even x =
     (let f = \<lfloor>x\<rfloor>; d = x - of_int f
      in if d < 1 / 2 then f else if 1 / 2 < d then f + 1 else if even f then f else f + 1)"

definition round_double :: "rat \<Rightarrow> rat" where
  "round_double a =
     (if a = 0 then 0
      else (let q = two_pow (max (binade a) (- 1022) - 52)
            in of_int (round_half_even (a / q)) * q))"

text \<open>The double for the sign \<open>neg\<close> and the magnitude \<open>a\<close>.\<close>

definition to_double :: "bool \<Rightarrow> rat \<Rightarrow> pyfloat" where
  "to_double neg a =
     (let v = round_double a
      in if 2 ^ 1024 \<le> v then (if neg then NegInf else PosInf)
         else if v = 0 then (if neg then NegZero else Fin 0)
         else Fin (if neg then - v else v))"

definition is_e :: "char \<Rightarrow> bool" where
  "is_e c \<longleftrightarrow> c = CHR ''e'' \<or> c = CHR ''E''"

text \<open>The words \<^verbatim>\<open>inf\<close>, \<^verbatim>\<open>infinity\<close> and \<^verbatim>\<open>nan\<close> are compared without regard to the case
  of the letters A to Z.\<close>

definition ascii_lower :: "string \<Rightarrow> string" where
  "ascii_lower s =
     map (\<lambda>c. if 65 \<le> (of_char c :: nat) \<and> (of_char c :: nat) \<le> 90 then char_of ((of_char c :: nat) + 32) else c) s"

definition py_float :: "string \<Rightarrow> pyfloat option" where
  "py_float s =
     (case split_sign (number_strip s) of (neg, body) \<Rightarrow>
        if ascii_lower body = ''inf'' \<or> ascii_lower body = ''infinity''
        then Some (if neg then NegInf else PosInf)
        else if ascii_lower body = ''nan'' then Some NaN
        else
          (case (mantissa (takeWhile (\<lambda>c. \<not> is_e c) body), exponent (dropWhile (\<lambda>c. \<not> is_e c) body)) of
             (Some (ds, fs), Some e) \<Rightarrow>
               Some (to_double neg (scale10 (of_int (digits_val (ds @ fs))) (e - int (length fs))))
           | _ \<Rightarrow> None))"

text \<open>
  The expression that \<^verbatim>\<open>add_coord\<close> evaluates for each of the three fields:
  \<^verbatim>\<open>int(x) if x.isdigit() or (x.startswith("-") and x[1:].isdigit()) else float(x)\<close>.
\<close>

definition coord_value :: "string \<Rightarrow> pyval option" where
  "coord_value x =
     (if isdigit x \<or> (startswith_minus x \<and> isdigit (drop 1 x))
      then map_option PInt (py_int x)
      else map_option PFloat (py_float x))"

section \<open>The dataset and its handlers\<close>

text \<open>
  Each handler of \<^verbatim>\<open>CoordManagerApp\<close> is a function from \<^verbatim>\<open>self.data\<close> and what the
  widgets and dialogs hand to it (the name selected in the profile list, the texts of the
  entry fields, the selected rows of the coordinate table, the answer to a question box)
  to the new \<^verbatim>\<open>self.data\<close> and the way the handler ended. After each change the
  handlers also write \<^verbatim>\<open>self.data\<close> to the data file (\<^verbatim>\<open>save_data\<close>, which shows an error
  box when the write fails) and redraw the widgets; neither touches \<^verbatim>\<open>self.data\<close>, and
  neither is modelled.
\<close>

datatype outcome =
    Done
  | Returned
  | ShowInfo string string
  | ShowWarning string string
  | ShowError string string
  | Raised pyexc

text \<open>\<open>Done\<close>: the handler made its change to \<^verbatim>\<open>self.data\<close> and showed no message box
  of its own. \<open>Returned\<close>: it left early without one. \<open>ShowInfo\<close>, \<open>ShowWarning\<close>,
  \<open>ShowError\<close>: the title and text of the message box it showed. \<open>Raised\<close>: an exception
  left the handler before any change.\<close>

text \<open>\<^verbatim>\<open>len(v)\<close>.\<close>

definition py_len :: "pyval \<Rightarrow> pyexc + nat" where
  "py_len v =
     (case v of
        PList xs \<Rightarrow> Inr (length xs)
      | PDict kvs \<Rightarrow> Inr (length kvs)
      | PStr s \<Rightarrow> Inr (length s)
      | _ \<Rightarrow> Inl TypeError)"

text \<open>The dataset after the list under \<^verbatim>\<open>"coords"\<close> of profile \<open>p\<close>, whose value is the
  dict \<open>pd\<close>, has become \<open>cs\<close>: the list is changed in place, so both keys stay where
  they are.\<close>

definition set_coords :: "dict \<Rightarrow> string \<Rightarrow> dict \<Rightarrow> pyval list \<Rightarrow> dict" where
  "set_coords d p pd cs = AList.update p (PDict (AList.update ''coords'' (PList cs) pd)) d"

text \<open>\<^verbatim>\<open>sorted(self.data.keys(), key=lambda s: s.lower())\<close>, the content of the profile
  list.\<close>

definition refresh_profile_listbox :: "dict \<Rightarrow> string list" where
  "refresh_profile_listbox d = sort_key lower (map fst d)"

text \<open>\<^verbatim>\<open>add_profile\<close>; \<open>answer\<close> is what the name dialog returned, \<open>None\<close> when it was
  cancelled.\<close>

definition add_profile :: "dict \<Rightarrow> string option \<Rightarrow> dict \<times> outcome" where
  "add_profile d answer =
     (case answer of
        None \<Rightarrow> (d, Returned)
      | Some name0 \<Rightarrow>
          if name0 = [] then (d, Returned)
          else
            (let name = strip name0
             in if map_of d name \<noteq> None then (d, ShowError ''Error'' ''Profile already exists.'')
                else (AList.update name (PDict [(''seed'', PStr []), (''coords'', PList [])]) d, Done)))"

text \<open>\<^verbatim>\<open>delete_profile\<close>; \<open>profile\<close> is what \<^verbatim>\<open>_get_selected_profile_name\<close> returned.\<close>

definition delete_profile :: "dict \<Rightarrow> string option \<Rightarrow> bool \<Rightarrow> dict \<times> outcome" where
  "delete_profile d profile confirm =
     (case profile of
        None \<Rightarrow> (d, ShowInfo ''No selection'' ''Select a profile to delete.'')
      | Some sel \<Rightarrow>
          if sel = [] then (d, ShowInfo ''No selection'' ''Select a profile to delete.'')
          else if \<not> confirm then (d, Returned)
          else if map_of d sel = None then (d, Raised KeyError)
          else (AList.delete sel d, Done))"

text \<open>\<^verbatim>\<open>save_seed\<close>.\<close>

definition save_seed :: "dict \<Rightarrow> string option \<Rightarrow> string \<Rightarrow> dict \<times> outcome" where
  "save_seed d profile seed_var =
     (case profile of
        None \<Rightarrow> (d, ShowInfo ''No profile'' ''Select or create a profile first.'')
      | Some p \<Rightarrow>
          if p = [] then (d, ShowInfo ''No profile'' ''Select or create a profile first.'')
          else
            (case map_of d p of
               None \<Rightarrow> (d, Raised KeyError)
             | Some (PDict pd) \<Rightarrow>
                 (AList.update p (PDict (AList.update ''seed'' (PStr (strip seed_var)) pd)) d,
                  ShowInfo ''Saved'' ''Seed saved.'')
             | Some _ \<Rightarrow> (d, Raised TypeError)))"

text \<open>\<^verbatim>\<open>self.data[profile]["coords"].append(coord)\<close>: only a list has \<^verbatim>\<open>append\<close>.\<close>

definition append_coord :: "dict \<Rightarrow> string \<Rightarrow> pyval \<Rightarrow> pyexc + dict" where
  "append_coord d p coord =
     (case map_of d p of
        None \<Rightarrow> Inl KeyError
      | Some (PDict pd) \<Rightarrow>
          (case map_of pd ''coords'' of
             None \<Rightarrow> Inl KeyError
           | Some (PList cs) \<Rightarrow> Inr (set_coords d p pd (cs @ [coord]))
           | Some _ \<Rightarrow> Inl AttributeError)
      | Some _ \<Rightarrow> Inl TypeError)"

text \<open>\<^verbatim>\<open>add_coord\<close>; the four texts are the contents of the entry fields.\<close>

definition add_coord ::
  "dict \<Rightarrow> string option \<Rightarrow> string \<Rightarrow> string \<Rightarrow> string \<Rightarrow> string \<Rightarrow> dict \<times> outcome" where
  "add_coord d profile name_var x_var y_var z_var =
     (case profile of
        None \<Rightarrow> (d, ShowInfo ''No profile'' ''Select or create a profile first.'')
      | Some p \<Rightarrow>
          if p = [] then (d, ShowInfo ''No profile'' ''Select or create a profile first.'')
          else
            (let name = strip name_var; x = strip x_var; y = strip y_var; z = strip z_var
             in if name = [] then (d, ShowError ''Validation'' ''Give the coordinate a name.'')
                else
                  (case (coord_value x, coord_value y, coord_value z) of
                     (Some x_val, Some y_val, Some z_val) \<Rightarrow>
                       (case append_coord d p
                               (PDict [(''name'', PStr name), (''x'', x_val), (''y'', y_val), (''z'', z_val)]) of
                          Inl e \<Rightarrow> (d, Raised e)
                        | Inr d' \<Rightarrow> (d', Done))
                   | _ \<Rightarrow> (d, ShowError ''Validation'' ''X, Y and Z must be numbers.''))))"

text \<open>
  \<^verbatim>\<open>delete_selected_coord\<close>; \<open>sel\<close> is the selection of the coordinate table (the row
  identifiers, which \<^verbatim>\<open>_refresh_coords_tree\<close> sets to the text of the row's index) and
  \<open>confirm\<close> the answer to the question box. The test \<^verbatim>\<open>idx < 0 or idx >= len(coords)\<close>
  asks for the length only when \<^verbatim>\<open>idx\<close> is not negative. The question shows
  \<^verbatim>\<open>coords[idx].get('name')\<close>: a dict has no integer key, and of the values of a list
  only a dict has \<^verbatim>\<open>get\<close>.
\<close>

definition delete_selected_coord ::
  "dict \<Rightarrow> string option \<Rightarrow> string list \<Rightarrow> bool \<Rightarrow> dict \<times> outcome" where
  "delete_selected_coord d profile sel confirm =
     (case profile of
        None \<Rightarrow> (d, Returned)
      | Some p \<Rightarrow>
          if p = [] then (d, Returned)
          else
            (case sel of
               [] \<Rightarrow> (d, ShowInfo ''Select'' ''Select a coordinate to delete.'')
             | iid # _ \<Rightarrow>
                 (case py_int iid of
                    None \<Rightarrow> (d, Raised ValueError)
                  | Some idx \<Rightarrow>
                      (case map_of d p of
                         None \<Rightarrow> (d, Raised KeyError)
                       | Some (PDict pd) \<Rightarrow>
                           (case map_of pd ''coords'' of
                              None \<Rightarrow> (d, Raised KeyError)
                            | Some coords \<Rightarrow>
                                if idx < 0 then (d, ShowError ''Error'' ''Invalid selection index.'')
                                else
                                  (case py_len coords of
                                     Inl e \<Rightarrow> (d, Raised e)
                                   | Inr n \<Rightarrow>
                                       if idx \<ge> int n
                                       then (d, ShowError ''Error'' ''Invalid selection index.'')
                                       else
                                         (case coords of
                                            PList cs \<Rightarrow>
                                              (case cs ! nat idx of
                                                 PDict _ \<Rightarrow>
                                                   if \<not> confirm then (d, Returned)
                                                   else (set_coords d p pd
                                                           (take (nat idx) cs @ drop (Suc (nat idx)) cs), Done)
                                               | _ \<Rightarrow> (d, Raised AttributeError))
                                          | PDict _ \<Rightarrow> (d, Raised KeyError)
                                          | _ \<Rightarrow> (d, Raised AttributeError))))
                       | Some _ \<Rightarrow> (d, Raised TypeError)))))"

section \<open>Files\<close>

text \<open>
  What reading a file with \<^verbatim>\<open>open\<close> and \<^verbatim>\<open>json.load\<close> gives: the value of its JSON text,
  or an exception, with the text the exception prints. A file system maps the paths that
  exist to their files.
\<close>

datatype file_result = Content pyval | Unreadable string

type_synonym filesystem = "string \<Rightarrow> file_result option"

definition newline :: char where
  "newline = CHR 0x0A"

text \<open>\<^verbatim>\<open>load_data\<close>: the dataset it returns and the warning it shows, if any.\<close>

definition load_warning :: "string \<Rightarrow> string \<Rightarrow> outcome" where
  "load_warning path e =
     ShowWarning ''Load error''
       (''Failed to load '' @ path @ '':'' @ [newline] @ e @ [newline] @ ''Starting with empty data.'')"

definition load_data :: "filesystem \<Rightarrow> string \<Rightarrow> dict \<times> outcome" where
  "load_data fs path =
     (case fs path of
        None \<Rightarrow> ([], Done)
      | Some (Unreadable e) \<Rightarrow> ([], load_warning path e)
      | Some (Content v) \<Rightarrow>
          (case v of
             PDict data \<Rightarrow> (data, Done)
           | _ \<Rightarrow> ([], load_warning path ''Top-level JSON not a dict'')))"

text \<open>\<^verbatim>\<open>isinstance(v, dict)\<close>.\<close>

definition is_dict :: "pyval \<Rightarrow> bool" where
  "is_dict v = (case v of PDict _ \<Rightarrow> True | _ \<Rightarrow> False)"

text \<open>\<^verbatim>\<open>self.data.update(newdata)\<close>: the entries of \<^verbatim>\<open>newdata\<close> are stored one after the
  other.\<close>

definition dict_update :: "dict \<Rightarrow> dict \<Rightarrow> dict" where
  "dict_update d newdata = fold (\<lambda>(k, v). AList.update k v) newdata d"

text \<open>
  \<^verbatim>\<open>import_json\<close>; \<open>chosen\<close> is the file behind the path that the file dialog returned
  (\<open>None\<close> when the dialog was cancelled) and \<open>merge\<close> the answer to the question
  ``Merge imported profiles into existing data?'', which is asked only when
  \<^verbatim>\<open>self.data\<close> is not empty.
\<close>

definition import_json :: "dict \<Rightarrow> file_result option \<Rightarrow> bool \<Rightarrow> dict \<times> outcome" where
  "import_json d chosen merge =
     (case chosen of
        None \<Rightarrow> (d, Returned)
      | Some (Unreadable e) \<Rightarrow> (d, ShowError ''Import error'' (''Failed to import:'' @ [newline] @ e))
      | Some (Content v) \<Rightarrow>
          (case v of
             PDict newdata \<Rightarrow>
               (if d \<noteq> [] \<and> merge then dict_update d newdata else newdata,
                ShowInfo ''Imported'' ''Import finished.'')
           | _ \<Rightarrow>
               (d, ShowError ''Import error''
                     ''Imported JSON must be an object mapping profile names to profile data.'')))"

section \<open>Vocabulary of the properties\<close>

text \<open>The value of a new profile, \<^verbatim>\<open>{"seed": "", "coords": []}\<close>.\<close>

definition new_profile :: pyval where
  "new_profile = PDict [(''seed'', PStr []), (''coords'', PList [])]"

text \<open>The coordinates of a profile: the list under \<^verbatim>\<open>"coords"\<close>, when the profile is a
  dict that has one.\<close>

definition coords_of :: "pyval \<Rightarrow> pyval list" where
  "coords_of v =
     (case v of
        PDict pd \<Rightarrow> (case map_of pd ''coords'' of Some (PList cs) \<Rightarrow> cs | _ \<Rightarrow> [])
      | _ \<Rightarrow> [])"

text \<open>A coordinate with a name that is a string and not empty.\<close>

definition has_name :: "pyval \<Rightarrow> bool" where
  "has_name c =
     (case c of
        PDict cd \<Rightarrow> (case map_of cd ''name'' of Some (PStr n) \<Rightarrow> n \<noteq> [] | _ \<Rightarrow> False)
      | _ \<Rightarrow> False)"

definition names_nonempty :: "dict \<Rightarrow> bool" where
  "names_nonempty d = list_all (\<lambda>(p, v). list_all has_name (coords_of v)) d"

text \<open>
  The operations of the profile store, each with what the widgets hand to its handler:
  \<^verbatim>\<open>add_profile\<close>, \<^verbatim>\<open>save_seed\<close>, \<^verbatim>\<open>add_coord\<close> and \<^verbatim>\<open>delete_selected_coord\<close>. A run
  applies them in turn to \<^verbatim>\<open>self.data\<close>, whatever the way each one ends.
\<close>

datatype operation =
    CreateProfile "string option"
  | SetSeed "string option" string
  | AddCoordinate "string option" string string string string
  | DeleteCoordinate "string option" "string list" bool

fun apply_operation :: "dict \<Rightarrow> operation \<Rightarrow> dict" where
  "apply_operation d (CreateProfile answer) = fst (add_profile d answer)"
| "apply_operation d (SetSeed profile seed_var) = fst (save_seed d profile seed_var)"
| "apply_operation d (AddCoordinate profile name_var x_var y_var z_var) =
     fst (add_coord d profile name_var x_var y_var z_var)"
| "apply_operation d (DeleteCoordinate profile sel confirm) =
     fst (delete_selected_coord d profile sel confirm)"

definition run :: "dict \<Rightarrow> operation list \<Rightarrow> dict" where
  "run d ops = foldl apply_operation d ops"

text \<open>
  Between \<open>d\<close> and \<open>d'\<close> nothing has changed but the coordinate list of profile \<open>p\<close>,
  which was \<open>cs\<close> and is \<open>cs'\<close>: the profiles and their order are the same, every other
  profile has its value, and profile \<open>p\<close> has its keys and, under every key but
  \<^verbatim>\<open>"coords"\<close>, its value.
\<close>

definition only_coords_changed :: "dict \<Rightarrow> dict \<Rightarrow> string \<Rightarrow> pyval list \<Rightarrow> pyval list \<Rightarrow> bool" where
  "only_coords_changed d d' p cs cs' \<longleftrightarrow>
     map fst d' = map fst d \<and>
     (\<forall>q. q \<noteq> p \<longrightarrow> map_of d' q = map_of d q) \<and>
     (\<exists>pd pd'. map_of d p = Some (PDict pd) \<and> map_of d' p = Some (PDict pd') \<and>
        map fst pd' = map fst pd \<and>
        (\<forall>k. k \<noteq> ''coords'' \<longrightarrow> map_of pd' k = map_of pd k) \<and>
        map_of pd ''coords'' = Some (PList cs) \<and> map_of pd' ''coords'' = Some (PList cs'))"

text \<open>A text of digits only, and a text that is an optional leading minus sign followed only
  by digits.\<close>

definition plain_int_text :: "string \<Rightarrow> bool" where
  "plain_int_text s \<longleftrightarrow> s \<noteq> [] \<and> list_all isdecimal s"

definition int_text :: "string \<Rightarrow> bool" where
  "int_text s \<longleftrightarrow> plain_int_text s \<or> (\<exists>r. s = CHR ''-'' # r \<and> plain_int_text r)"

text \<open>
  The number literals of Python: a digit group is \<^verbatim>\<open>digit (["_"] digit)*\<close>, a literal is
  an optional sign, digit groups around an optional point (one of them may be missing
  when the point is there), and an optional exponent.
\<close>

inductive digit_group :: "string \<Rightarrow> bool" where
  one: "isdecimal c \<Longrightarrow> digit_group [c]"
| more: "isdecimal c \<Longrightarrow> digit_group ds \<Longrightarrow> digit_group (c # ds)"
| under: "isdecimal c \<Longrightarrow> digit_group ds \<Longrightarrow> digit_group (c # CHR ''_'' # ds)"

definition opt_sign :: "string \<Rightarrow> bool" where
  "opt_sign sg \<longleftrightarrow> sg = [] \<or> sg = ''+'' \<or> sg = ''-''"

definition mantissa_text :: "string \<Rightarrow> bool" where
  "mantissa_text m \<longleftrightarrow>
     (\<exists>ip. digit_group ip \<and> (m = ip \<or> m = ip @ ''.'')) \<or>
     (\<exists>fp. digit_group fp \<and> m = ''.'' @ fp) \<or>
     (\<exists>ip fp. digit_group ip \<and> digit_group fp \<and> m = ip @ ''.'' @ fp)"

definition exponent_text :: "string \<Rightarrow> bool" where
  "exponent_text ex \<longleftrightarrow>
     ex = [] \<or> (\<exists>c sg dp. is_e c \<and> opt_sign sg \<and> digit_group dp \<and> ex = c # sg @ dp)"

definition number_text :: "string \<Rightarrow> bool" where
  "number_text s \<longleftrightarrow>
     (\<exists>sg m ex. opt_sign sg \<and> mantissa_text m \<and> exponent_text ex \<and> s = sg @ m @ ex)"

text \<open>The words that \<^verbatim>\<open>float\<close> reads as an infinity or as not-a-number, with an optional
  sign and in any case of the letters.\<close>

definition special_text :: "string \<Rightarrow> bool" where
  "special_text s \<longleftrightarrow>
     (\<exists>sg w. opt_sign sg \<and> s = sg @ w \<and> ascii_lower w \<in> {''inf'', ''infinity'', ''nan''})"

section \<open>Example data\<close>

definition base_camp :: pyval where
  "base_camp =
     PDict [(''name'', PStr ''Base''), (''x'', PInt 100), (''y'', PInt 64), (''z'', PInt (- 200))]"

definition mine :: pyval where
  "mine =
     PDict [(''name'', PStr ''Mine''), (''x'', PFloat (Fin (3 / 2))), (''y'', PInt 12), (''z'', PInt 7)]"

definition two_worlds :: dict where
  "two_worlds =
     [(''p'', PDict [(''seed'', PStr ''4815162342''), (''coords'', PList [base_camp, mine])]),
      (''q'', new_profile)]"

section \<open>Evaluation\<close>

lemmas number_defs =
  coord_value_def isdigit_def isdigit_char_def isdecimal_def startswith_minus_def
  py_int_def int_max_str_digits_def py_float_def number_strip_def number_space_def
  ascii_lower_def is_e_def
  mantissa_def exponent_def scale10_def digits_val_def digit_val_def

lemmas handler_defs =
  add_profile_def save_seed_def add_coord_def append_coord_def delete_selected_coord_def
  set_coords_def py_len_def strip_def isspace_def new_profile_def

section \<open>Loading the data file\<close>

text \<open>
  Claim C8. \<^verbatim>\<open>load_data\<close> on a path that does not exist returns the empty dataset and
  shows no message. On a file whose JSON value is not an object (an array, say) it shows
  the warning ``Load error'', with the text of the \<^verbatim>\<open>ValueError\<close> it raised for itself, and
  returns the empty dataset: the fallback is inside \<^verbatim>\<open>load_data\<close>, so its caller starts
  with the empty dataset.
\<close>

theorem load_data_missing_or_not_object:
  "(fs path = None \<longrightarrow> load_data fs path = ([], Done)) \<and>
   (fs path = Some (Content v) \<and> \<not> is_dict v \<longrightarrow>
      load_data fs path = ([], load_warning path ''Top-level JSON not a dict''))"
  by (auto simp: load_data_def is_dict_def split: pyval.splits)

theorem load_data_missing_or_not_object_witness:
  "load_data ((\<lambda>_. None)(''cords-data.json'' \<mapsto> Content (PList []))) ''other.json'' = ([], Done) \<and>
   load_data ((\<lambda>_. None)(''cords-data.json'' \<mapsto> Content (PList []))) ''cords-data.json''
     = ([], ShowWarning ''Load error''
              (''Failed to load cords-data.json:'' @ [newline] @ ''Top-level JSON not a dict''
                 @ [newline] @ ''Starting with empty data.''))"
  using load_data_missing_or_not_object
          [of "(\<lambda>_. None)(''cords-data.json'' \<mapsto> Content (PList []))" "''other.json''" "PList []"]
        load_data_missing_or_not_object
          [of "(\<lambda>_. None)(''cords-data.json'' \<mapsto> Content (PList []))" "''cords-data.json''" "PList []"]
  by (simp add: is_dict_def load_warning_def)

section \<open>Importing a document\<close>

lemma map_of_dict_update:
  "distinct (map fst nd) \<Longrightarrow> map_of (dict_update d nd) = map_of d ++ map_of nd"
proof (induction nd arbitrary: d)
  case Nil
  then show ?case by (simp add: dict_update_def)
next
  case (Cons kv nd)
  obtain k v where kv: "kv = (k, v)" by (cases kv)
  from Cons.prems kv have fresh: "k \<notin> fst ` set nd" and dist: "distinct (map fst nd)" by auto
  have "map_of (dict_update d (kv # nd)) = map_of (dict_update (AList.update k v d) nd)"
    by (simp add: dict_update_def kv)
  also have "\<dots> = map_of (AList.update k v d) ++ map_of nd"
    using Cons.IH [OF dist] .
  also have "\<dots> = map_of d ++ map_of (kv # nd)"
  proof
    fix x
    show "(map_of (AList.update k v d) ++ map_of nd) x = (map_of d ++ map_of (kv # nd)) x"
    proof -
      from fresh have "map_of nd k = None" by (simp add: map_of_eq_None_iff)
      then show ?thesis
        by (auto simp: kv map_add_def update_conv' split: option.splits)
    qed
  qed
  finally show ?case .
qed

lemma dict_update_step:
  "dict_update d (kv # nd) = dict_update (AList.update (fst kv) (snd kv) d) nd"
  by (simp add: dict_update_def split_def)

lemma distinct_dict_update: "distinct (map fst d) \<Longrightarrow> distinct (map fst (dict_update d nd))"
proof (induction nd arbitrary: d)
  case Nil
  then show ?case by (simp add: dict_update_def)
next
  case (Cons kv nd)
  then show ?case by (simp add: dict_update_step distinct_update)
qed

text \<open>
  Claim C5. The imported document is an object \<open>newdata\<close> (a \<^verbatim>\<open>dict\<close>, so its keys are
  distinct). When the user answers ``merge'', every entry of \<open>newdata\<close> is in the
  resulting dataset with the imported value, and every name that \<open>newdata\<close> does not have
  keeps what the dataset had for it; the question is not asked of an empty dataset, which
  becomes \<open>newdata\<close>, and that is the same. When the user answers ``replace'', the dataset
  becomes \<open>newdata\<close> itself.
\<close>

theorem import_json_merge_replace:
  assumes "distinct (map fst newdata)"
  shows "(\<exists>d'. import_json d (Some (Content (PDict newdata))) True
                 = (d', ShowInfo ''Imported'' ''Import finished.'') \<and>
              (\<forall>k v. map_of newdata k = Some v \<longrightarrow> map_of d' k = Some v) \<and>
              (\<forall>k. map_of newdata k = None \<longrightarrow> map_of d' k = map_of d k)) \<and>
         import_json d (Some (Content (PDict newdata))) False
           = (newdata, ShowInfo ''Imported'' ''Import finished.'')"
proof -
  have merge: "map_of (dict_update d newdata) = map_of d ++ map_of newdata"
    using assms by (rule map_of_dict_update)
  show ?thesis
  proof (cases "d = []")
    case True
    then show ?thesis by (simp add: import_json_def)
  next
    case False
    then show ?thesis by (simp add: import_json_def merge map_add_def)
  qed
qed

theorem import_json_merge_replace_witness:
  "(\<exists>d'. import_json [(''p'', PStr ''old''), (''q'', PStr ''other'')]
            (Some (Content (PDict [(''p'', PStr ''new'')]))) True
          = (d', ShowInfo ''Imported'' ''Import finished.'') \<and>
         map_of d' ''p'' = Some (PStr ''new'') \<and> map_of d' ''q'' = Some (PStr ''other'')) \<and>
   import_json [(''p'', PStr ''old''), (''q'', PStr ''other'')]
      (Some (Content (PDict [(''p'', PStr ''new'')]))) False
     = ([(''p'', PStr ''new'')], ShowInfo ''Imported'' ''Import finished.'')"
  using import_json_merge_replace
          [of "[(''p'', PStr ''new'')]" "[(''p'', PStr ''old''), (''q'', PStr ''other'')]"]
  by (simp add: import_json_def dict_update_def)

section \<open>Adding a coordinate: the refusals\<close>

lemma strip_Nil: "strip [] = []"
  by (simp add: strip_def)

lemma strip_Home: "strip ''Home'' = ''Home''"
  by (simp add: strip_def isspace_def)

lemma strip_abc: "strip ''abc'' = ''abc''"
  by (simp add: strip_def isspace_def)

lemma coord_value_abc: "coord_value ''abc'' = None"
  by (simp add: coord_value_def isdigit_def isdigit_char_def isdecimal_def startswith_minus_def
      py_float_def number_strip_def number_space_def ascii_lower_def is_e_def mantissa_def
      exponent_def)

text \<open>
  For every profile name \<open>p\<close> that is not the empty string and every dataset,
  \<^verbatim>\<open>add_coord\<close> with the coordinate name \<^verbatim>\<open>""\<close> shows the error ``Give the coordinate a
  name.'', and with the name \<^verbatim>\<open>"Home"\<close> and the x text \<^verbatim>\<open>"abc"\<close> it shows the error ``X, Y
  and Z must be numbers.''; both leave the dataset as it was. Both tests come before the
  handler looks the profile up.
\<close>

lemma add_coord_rejected_unchanged:
  assumes "p \<noteq> []"
  shows "add_coord d (Some p) [] ''1'' ''2'' ''3''
           = (d, ShowError ''Validation'' ''Give the coordinate a name.'') \<and>
         add_coord d (Some p) ''Home'' ''abc'' ''0'' ''0''
           = (d, ShowError ''Validation'' ''X, Y and Z must be numbers.'')"
  using assms by (simp add: add_coord_def strip_Nil strip_Home strip_abc coord_value_abc)

lemma add_coord_rejected_unchanged_example:
  "add_coord [(''p'', new_profile)] (Some ''p'') [] ''1'' ''2'' ''3''
     = ([(''p'', new_profile)], ShowError ''Validation'' ''Give the coordinate a name.'') \<and>
   add_coord [(''p'', new_profile)] (Some ''p'') ''Home'' ''abc'' ''0'' ''0''
     = ([(''p'', new_profile)], ShowError ''Validation'' ''X, Y and Z must be numbers.'')"
  using add_coord_rejected_unchanged [of "''p''" "[(''p'', new_profile)]"] by simp

text \<open>
  Claim C7. The claim is about every existing profile. A dataset can hold a profile whose
  name is the empty string (\<^verbatim>\<open>add_profile\<close> stores one for a name of blanks, and an
  imported document can bring one). For that profile \<^verbatim>\<open>_get_selected_profile_name\<close>
  returns \<^verbatim>\<open>""\<close>, the test \<^verbatim>\<open>if not profile\<close>, written to catch the \<^verbatim>\<open>None\<close> of an empty
  selection, takes it for no selection, and the handler shows ``Select or create a profile
  first.'' where the claim expects the errors for the empty coordinate name and for the
  text that is no number. The dataset is unchanged, as the claim says. For every other
  profile the handler does what the claim says (\<open>add_coord_rejected_unchanged\<close>).
\<close>

theorem add_coord_unnamed_profile:
  "map_of [([], new_profile)] [] = Some new_profile \<and>
   add_coord [([], new_profile)] (Some []) [] ''1'' ''2'' ''3''
     = ([([], new_profile)], ShowInfo ''No profile'' ''Select or create a profile first.'') \<and>
   add_coord [([], new_profile)] (Some []) ''Home'' ''abc'' ''0'' ''0''
     = ([([], new_profile)], ShowInfo ''No profile'' ''Select or create a profile first.'')"
  by (simp add: add_coord_def)

section \<open>What a successful change touches\<close>

lemma map_of_Some_key: "map_of al k = Some v \<Longrightarrow> k \<in> fst ` set al"
  by (metis map_of_eq_None_iff option.distinct(1))

lemma update_present_keys: "map_of al k = Some w \<Longrightarrow> map fst (AList.update k v al) = map fst al"
  by (simp add: update_keys map_of_Some_key)

lemma set_coords_frame:
  assumes "map_of d p = Some (PDict pd)" and "map_of pd ''coords'' = Some (PList cs)"
  shows "only_coords_changed d (set_coords d p pd cs') p cs cs'"
  unfolding only_coords_changed_def set_coords_def
  using assms
  by (auto simp: update_present_keys update_conv')

text \<open>When \<^verbatim>\<open>add_coord\<close> runs to its end, every test on the way has passed.\<close>

lemma add_coord_Done:
  assumes "add_coord d profile name_var x_var y_var z_var = (d', Done)"
  shows "\<exists>p pd cs x_val y_val z_val.
           profile = Some p \<and> p \<noteq> [] \<and> strip name_var \<noteq> [] \<and>
           coord_value (strip x_var) = Some x_val \<and> coord_value (strip y_var) = Some y_val \<and>
           coord_value (strip z_var) = Some z_val \<and>
           map_of d p = Some (PDict pd) \<and> map_of pd ''coords'' = Some (PList cs) \<and>
           d' = set_coords d p pd
                  (cs @ [PDict [(''name'', PStr (strip name_var)),
                                (''x'', x_val), (''y'', y_val), (''z'', z_val)]])"
  using assms
  by (auto simp: add_coord_def append_coord_def Let_def
           split: option.splits if_splits pyval.splits sum.splits)

text \<open>The same for \<^verbatim>\<open>delete_selected_coord\<close>, one test after the other.\<close>

lemma delete_selected_coord_Done:
  assumes "delete_selected_coord d profile sel confirm = (d', Done)"
  shows "\<exists>p iid rest i pd cs.
           profile = Some p \<and> p \<noteq> [] \<and> sel = iid # rest \<and> py_int iid = Some (int i) \<and> confirm \<and>
           map_of d p = Some (PDict pd) \<and> map_of pd ''coords'' = Some (PList cs) \<and>
           i < length cs \<and> is_dict (cs ! i) \<and>
           d' = set_coords d p pd (take i cs @ drop (Suc i) cs)"
proof -
  from assms obtain p where p: "profile = Some p" "p \<noteq> []"
    by (auto simp: delete_selected_coord_def split: option.splits if_splits)
  from assms p obtain iid rest where sel: "sel = iid # rest"
    by (auto simp: delete_selected_coord_def split: list.splits)
  from assms p sel obtain idx where idx: "py_int iid = Some idx"
    by (auto simp: delete_selected_coord_def split: option.splits)
  from assms p sel idx obtain pd where pd: "map_of d p = Some (PDict pd)"
    by (auto simp: delete_selected_coord_def split: option.splits pyval.splits)
  from assms p sel idx pd obtain coords where coords: "map_of pd ''coords'' = Some coords"
    by (auto simp: delete_selected_coord_def split: option.splits)
  from assms p sel idx pd coords have nonneg: "0 \<le> idx"
    by (auto simp: delete_selected_coord_def split: if_splits)
  from assms p sel idx pd coords nonneg obtain n where n: "py_len coords = Inr n" "idx < int n"
    by (auto simp: delete_selected_coord_def split: if_splits sum.splits)
  from assms p sel idx pd coords nonneg n obtain cs where cs: "coords = PList cs"
    by (auto simp: delete_selected_coord_def split: pyval.splits)
  from n cs have len: "nat idx < length cs" using nonneg by (auto simp: py_len_def)
  from assms p sel idx pd coords nonneg n cs
  have rest: "is_dict (cs ! nat idx)" "confirm"
    "d' = set_coords d p pd (take (nat idx) cs @ drop (Suc (nat idx)) cs)"
    by (auto simp: delete_selected_coord_def is_dict_def split: pyval.splits if_splits)
  from nonneg have "idx = int (nat idx)" by simp
  with p sel idx pd coords cs len rest show ?thesis by metis
qed

text \<open>
  Claim C10. When \<^verbatim>\<open>add_coord\<close> runs to its end on the selected profile \<open>p\<close>, the
  dataset differs from the one before only in the coordinate list of \<open>p\<close>, which has one
  more entry, at its end. When \<^verbatim>\<open>delete_selected_coord\<close> runs to its end, the dataset
  differs only in the coordinate list of \<open>p\<close>, which has lost one entry. In both cases the
  seed of \<open>p\<close> (its value under every key but \<^verbatim>\<open>"coords"\<close>) and every other profile
  are as before, and so is the order of the profiles.
\<close>

theorem add_delete_frame:
  "(add_coord d profile name_var x_var y_var z_var = (d', Done) \<longrightarrow>
      (\<exists>p cs c. profile = Some p \<and> only_coords_changed d d' p cs (cs @ [c]))) \<and>
   (delete_selected_coord d profile sel confirm = (d'', Done) \<longrightarrow>
      (\<exists>p cs i. profile = Some p \<and> i < length cs \<and>
         only_coords_changed d d'' p cs (take i cs @ drop (Suc i) cs)))"
proof (intro conjI impI)
  assume "add_coord d profile name_var x_var y_var z_var = (d', Done)"
  from add_coord_Done [OF this] set_coords_frame
  show "\<exists>p cs c. profile = Some p \<and> only_coords_changed d d' p cs (cs @ [c])"
    by blast
next
  assume "delete_selected_coord d profile sel confirm = (d'', Done)"
  from delete_selected_coord_Done [OF this] set_coords_frame
  show "\<exists>p cs i. profile = Some p \<and> i < length cs \<and>
          only_coords_changed d d'' p cs (take i cs @ drop (Suc i) cs)"
    by blast
qed

theorem add_delete_frame_witness:
  "(\<exists>p cs c. Some ''p'' = Some p \<and>
      only_coords_changed two_worlds
        [(''p'', PDict [(''seed'', PStr ''4815162342''),
                        (''coords'', PList [base_camp, mine,
                           PDict [(''name'', PStr ''Farm''), (''x'', PInt 1), (''y'', PInt 2), (''z'', PInt 3)]])]),
         (''q'', new_profile)]
        p cs (cs @ [c])) \<and>
   (\<exists>p cs i. Some ''p'' = Some p \<and> i < length cs \<and>
      only_coords_changed two_worlds
        [(''p'', PDict [(''seed'', PStr ''4815162342''), (''coords'', PList [mine])]),
         (''q'', new_profile)]
        p cs (take i cs @ drop (Suc i) cs))"
  using add_delete_frame
          [where d = two_worlds and profile = "Some ''p''" and name_var = "'' Farm''"
             and x_var = "''1''" and y_var = "''2''" and z_var = "''3''"
             and d' = "[(''p'', PDict [(''seed'', PStr ''4815162342''),
                        (''coords'', PList [base_camp, mine,
                           PDict [(''name'', PStr ''Farm''), (''x'', PInt 1), (''y'', PInt 2), (''z'', PInt 3)]])]),
                (''q'', new_profile)]"
             and sel = "[''0'']" and confirm = True
             and d'' = "[(''p'', PDict [(''seed'', PStr ''4815162342''), (''coords'', PList [mine])]),
                (''q'', new_profile)]"]
  by (simp add: two_worlds_def base_camp_def handler_defs number_defs)

section \<open>Deleting a coordinate\<close>

lemma remove_nth:
  assumes "i < length cs"
  shows "length (take i cs @ drop (Suc i) cs) = length cs - 1"
    and "\<forall>j<i. (take i cs @ drop (Suc i) cs) ! j = cs ! j"
    and "\<forall>j. i \<le> j \<and> j < length cs - 1 \<longrightarrow> (take i cs @ drop (Suc i) cs) ! j = cs ! Suc j"
  using assms by (auto simp: nth_append min_def)

text \<open>
  The profile name \<open>p\<close> is not the empty string, and the selected
  row's identifier reads as the index \<open>idx\<close>. When the dataset has no profile \<open>p\<close>, the
  lookup \<^verbatim>\<open>self.data[profile]\<close> raises \<^verbatim>\<open>KeyError\<close> and the dataset is as before. When
  \<open>p\<close> is a profile with the coordinate list \<open>cs\<close> and \<open>idx\<close> is negative or not below
  the length of \<open>cs\<close> (5 for a list of 2), the handler shows ``Invalid selection index.''
  and the dataset is as before. Otherwise, the entry being a dict and the user confirming,
  the handler runs to its end and only the coordinate list of \<open>p\<close> has changed: it is one
  shorter, the entries before \<open>idx\<close> are where they were, and each later entry is one
  place lower.
\<close>

lemma delete_selected_coord_cases:
  assumes "p \<noteq> []" and "py_int iid = Some idx"
  shows "(map_of d p = None \<longrightarrow>
            delete_selected_coord d (Some p) (iid # rest) confirm = (d, Raised KeyError)) \<and>
         (map_of d p = Some (PDict pd) \<and> map_of pd ''coords'' = Some (PList cs) \<and>
            (idx < 0 \<or> int (length cs) \<le> idx) \<longrightarrow>
            delete_selected_coord d (Some p) (iid # rest) confirm
              = (d, ShowError ''Error'' ''Invalid selection index.'')) \<and>
         (map_of d p = Some (PDict pd) \<and> map_of pd ''coords'' = Some (PList cs) \<and>
            0 \<le> idx \<and> idx < int (length cs) \<and> is_dict (cs ! nat idx) \<longrightarrow>
            (\<exists>d' cs'. delete_selected_coord d (Some p) (iid # rest) True = (d', Done) \<and>
               only_coords_changed d d' p cs cs' \<and>
               length cs' = length cs - 1 \<and>
               (\<forall>j. j < nat idx \<longrightarrow> cs' ! j = cs ! j) \<and>
               (\<forall>j. nat idx \<le> j \<and> j < length cs' \<longrightarrow> cs' ! j = cs ! Suc j)))"
proof (intro conjI impI)
  assume "map_of d p = None"
  with assms show "delete_selected_coord d (Some p) (iid # rest) confirm = (d, Raised KeyError)"
    by (simp add: delete_selected_coord_def)
next
  assume "map_of d p = Some (PDict pd) \<and> map_of pd ''coords'' = Some (PList cs) \<and>
            (idx < 0 \<or> int (length cs) \<le> idx)"
  with assms show "delete_selected_coord d (Some p) (iid # rest) confirm
              = (d, ShowError ''Error'' ''Invalid selection index.'')"
    by (auto simp: delete_selected_coord_def py_len_def)
next
  assume a: "map_of d p = Some (PDict pd) \<and> map_of pd ''coords'' = Some (PList cs) \<and>
            0 \<le> idx \<and> idx < int (length cs) \<and> is_dict (cs ! nat idx)"
  let ?cs' = "take (nat idx) cs @ drop (Suc (nat idx)) cs"
  from a have len: "nat idx < length cs" by auto
  from a assms
  have "delete_selected_coord d (Some p) (iid # rest) True = (set_coords d p pd ?cs', Done)"
    by (auto simp: delete_selected_coord_def py_len_def is_dict_def split: pyval.splits)
  moreover from a have "only_coords_changed d (set_coords d p pd ?cs') p cs ?cs'"
    by (simp add: set_coords_frame)
  moreover note remove_nth [OF len]
  ultimately show "\<exists>d' cs'. delete_selected_coord d (Some p) (iid # rest) True = (d', Done) \<and>
               only_coords_changed d d' p cs cs' \<and>
               length cs' = length cs - 1 \<and>
               (\<forall>j. j < nat idx \<longrightarrow> cs' ! j = cs ! j) \<and>
               (\<forall>j. nat idx \<le> j \<and> j < length cs' \<longrightarrow> cs' ! j = cs ! Suc j)"
    by (intro exI [of _ "set_coords d p pd ?cs'"] exI [of _ ?cs']) simp
qed

lemma delete_selected_coord_cases_example:
  "delete_selected_coord [(''q'', new_profile)] (Some ''p'') [''5''] True
     = ([(''q'', new_profile)], Raised KeyError) \<and>
   delete_selected_coord two_worlds (Some ''p'') [''5''] True
     = (two_worlds, ShowError ''Error'' ''Invalid selection index.'') \<and>
   (\<exists>d' cs'. delete_selected_coord two_worlds (Some ''p'') [''0''] True = (d', Done) \<and>
      only_coords_changed two_worlds d' ''p'' [base_camp, mine] cs' \<and> cs' = [mine])"
proof -
  have five: "py_int ''5'' = Some 5" and zero: "py_int ''0'' = Some 0"
    by (simp_all add: number_defs)
  have p: "''p'' \<noteq> []" by simp
  have absent: "map_of [(''q'', new_profile)] ''p'' = None" by simp
  have present: "map_of two_worlds ''p''
      = Some (PDict [(''seed'', PStr ''4815162342''), (''coords'', PList [base_camp, mine])])"
    "map_of [(''seed'', PStr ''4815162342''), (''coords'', PList [base_camp, mine])] ''coords''
      = Some (PList [base_camp, mine])"
    by (simp_all add: two_worlds_def)
  have dict0: "is_dict ([base_camp, mine] ! nat 0)" by (simp add: is_dict_def base_camp_def)
  from delete_selected_coord_cases
         [OF p five, where d = "[(''q'', new_profile)]" and rest = "[]" and confirm = True] absent
  have 1: "delete_selected_coord [(''q'', new_profile)] (Some ''p'') [''5''] True
     = ([(''q'', new_profile)], Raised KeyError)" by blast
  from delete_selected_coord_cases
         [OF p five, where d = two_worlds and cs = "[base_camp, mine]" and rest = "[]"
            and confirm = True
            and pd = "[(''seed'', PStr ''4815162342''), (''coords'', PList [base_camp, mine])]"]
       present
  have 2: "delete_selected_coord two_worlds (Some ''p'') [''5''] True
     = (two_worlds, ShowError ''Error'' ''Invalid selection index.'')" by simp
  from delete_selected_coord_cases
         [OF p zero, where d = two_worlds and cs = "[base_camp, mine]" and rest = "[]"
            and pd = "[(''seed'', PStr ''4815162342''), (''coords'', PList [base_camp, mine])]"]
       present dict0
  obtain d' cs' where 3: "delete_selected_coord two_worlds (Some ''p'') [''0''] True = (d', Done)"
    "only_coords_changed two_worlds d' ''p'' [base_camp, mine] cs'"
    "length cs' = length [base_camp, mine] - 1" "cs' ! 0 = [base_camp, mine] ! Suc 0"
    by auto
  from 3(3,4) have "cs' = [mine]" by (cases cs') auto
  with 1 2 3 show ?thesis by blast
qed


section \<open>Coordinate names are never empty\<close>

lemma set_update_subset: "set (AList.update k v al) \<subseteq> insert (k, v) (set al)"
  by (induction al) auto

lemma names_nonempty_iff:
  "names_nonempty d \<longleftrightarrow> (\<forall>(p, v) \<in> set d. \<forall>c \<in> set (coords_of v). has_name c)"
  by (auto simp: names_nonempty_def list_all_iff)

lemma names_nonempty_update:
  assumes "names_nonempty d" and "\<forall>c \<in> set (coords_of v). has_name c"
  shows "names_nonempty (AList.update k v d)"
  using assms set_update_subset [of k v d]
  unfolding names_nonempty_iff by blast

lemma names_nonempty_lookup:
  assumes "names_nonempty d" and "map_of d p = Some v"
  shows "\<forall>c \<in> set (coords_of v). has_name c"
  using assms map_of_SomeD [of d p v]
  unfolding names_nonempty_iff by blast

lemma names_nonempty_set_coords:
  assumes "names_nonempty d" and "\<forall>c \<in> set cs'. has_name c"
  shows "names_nonempty (set_coords d p pd cs')"
  unfolding set_coords_def
  using assms by (intro names_nonempty_update) (simp_all add: coords_of_def update_conv')

lemma add_profile_names:
  "names_nonempty d \<Longrightarrow> names_nonempty (fst (add_profile d answer))"
  by (auto simp: add_profile_def Let_def coords_of_def split: option.splits
           intro!: names_nonempty_update)

lemma save_seed_names:
  assumes "names_nonempty d"
  shows "names_nonempty (fst (save_seed d profile seed_var))"
proof (cases "snd (save_seed d profile seed_var) = ShowInfo ''Saved'' ''Seed saved.''")
  case False
  then have "fst (save_seed d profile seed_var) = d"
    by (auto simp: save_seed_def split: option.splits pyval.splits if_splits)
  with assms show ?thesis by simp
next
  case True
  then obtain p pd where p: "profile = Some p" "map_of d p = Some (PDict pd)"
    and d': "fst (save_seed d profile seed_var)
               = AList.update p (PDict (AList.update ''seed'' (PStr (strip seed_var)) pd)) d"
    by (auto simp: save_seed_def split: option.splits pyval.splits if_splits)
  have "coords_of (PDict (AList.update ''seed'' (PStr (strip seed_var)) pd)) = coords_of (PDict pd)"
    by (simp add: coords_of_def update_conv')
  with names_nonempty_lookup [OF assms p(2)] show ?thesis
    unfolding d' by (intro names_nonempty_update [OF assms]) simp
qed

lemma add_coord_names:
  assumes "names_nonempty d"
  shows "names_nonempty (fst (add_coord d profile name_var x_var y_var z_var))"
proof (cases "snd (add_coord d profile name_var x_var y_var z_var) = Done")
  case False
  then have "fst (add_coord d profile name_var x_var y_var z_var) = d"
    by (auto simp: add_coord_def Let_def split: option.splits sum.splits if_splits)
  with assms show ?thesis by simp
next
  case True
  then have "add_coord d profile name_var x_var y_var z_var
               = (fst (add_coord d profile name_var x_var y_var z_var), Done)"
    by (metis prod.collapse)
  from add_coord_Done [OF this] obtain p pd cs x_val y_val z_val where
    name: "strip name_var \<noteq> []" and p: "map_of d p = Some (PDict pd)"
    and cs: "map_of pd ''coords'' = Some (PList cs)"
    and d': "fst (add_coord d profile name_var x_var y_var z_var)
               = set_coords d p pd
                  (cs @ [PDict [(''name'', PStr (strip name_var)),
                                (''x'', x_val), (''y'', y_val), (''z'', z_val)]])"
    by blast
  from names_nonempty_lookup [OF assms p] cs have "\<forall>c \<in> set cs. has_name c"
    by (simp add: coords_of_def)
  with name show ?thesis
    unfolding d' by (intro names_nonempty_set_coords [OF assms]) (auto simp: has_name_def)
qed

lemma delete_selected_coord_names:
  assumes "names_nonempty d"
  shows "names_nonempty (fst (delete_selected_coord d profile sel confirm))"
proof (cases "snd (delete_selected_coord d profile sel confirm) = Done")
  case False
  then have "fst (delete_selected_coord d profile sel confirm) = d"
    by (auto simp: delete_selected_coord_def
             split: option.splits sum.splits if_splits list.splits pyval.splits)
  with assms show ?thesis by simp
next
  case True
  then have "delete_selected_coord d profile sel confirm
               = (fst (delete_selected_coord d profile sel confirm), Done)"
    by (metis prod.collapse)
  from delete_selected_coord_Done [OF this] obtain p i pd cs where
    p: "map_of d p = Some (PDict pd)" and cs: "map_of pd ''coords'' = Some (PList cs)"
    and d': "fst (delete_selected_coord d profile sel confirm)
               = set_coords d p pd (take i cs @ drop (Suc i) cs)"
    by blast
  from names_nonempty_lookup [OF assms p] cs have "\<forall>c \<in> set cs. has_name c"
    by (simp add: coords_of_def)
  then have "\<forall>c \<in> set (take i cs @ drop (Suc i) cs). has_name c"
    by (auto dest: in_set_takeD in_set_dropD)
  then show ?thesis
    unfolding d' by (rule names_nonempty_set_coords [OF assms])
qed

lemma apply_operation_names:
  "names_nonempty d \<Longrightarrow> names_nonempty (apply_operation d oper)"
  by (cases oper)
     (simp_all add: add_profile_names save_seed_names add_coord_names delete_selected_coord_names)

text \<open>
  Claim C9. In a dataset where every entry of every profile's coordinate list is a dict
  whose \<^verbatim>\<open>"name"\<close> is a string that is not empty, any sequence of \<^verbatim>\<open>add_profile\<close>,
  \<^verbatim>\<open>save_seed\<close>, \<^verbatim>\<open>add_coord\<close> and \<^verbatim>\<open>delete_selected_coord\<close>, with any inputs and however
  each of them ends, leaves a dataset of the same kind: the only entry ever added is the
  one of \<^verbatim>\<open>add_coord\<close>, whose name is the trimmed text of the name field, and the handler
  returns before that when the trimmed text is empty.
\<close>

theorem run_names_nonempty:
  assumes "names_nonempty d"
  shows "names_nonempty (run d ops)"
  using assms unfolding run_def
  by (induction ops arbitrary: d) (simp_all add: apply_operation_names)

theorem run_names_nonempty_witness:
  "names_nonempty two_worlds \<and>
   names_nonempty (run two_worlds
     [CreateProfile (Some '' r ''),
      AddCoordinate (Some ''r'') ''   '' ''1'' ''2'' ''3'',
      AddCoordinate (Some ''r'') '' Farm '' ''1'' ''2'' ''3'',
      SetSeed (Some ''r'') ''42'',
      DeleteCoordinate (Some ''p'') [''0''] True])"
  using run_names_nonempty [of two_worlds
     "[CreateProfile (Some '' r ''),
      AddCoordinate (Some ''r'') ''   '' ''1'' ''2'' ''3'',
      AddCoordinate (Some ''r'') '' Farm '' ''1'' ''2'' ''3'',
      SetSeed (Some ''r'') ''42'',
      DeleteCoordinate (Some ''p'') [''0''] True]"]
  by (simp add: names_nonempty_def two_worlds_def coords_of_def has_name_def base_camp_def
        mine_def new_profile_def)

section \<open>Texts and numbers\<close>

subsection \<open>Trimming\<close>

lemma trim_fixed:
  assumes "s = [] \<or> (\<not> P (hd s) \<and> \<not> P (last s))"
  shows "rev (dropWhile P (rev (dropWhile P s))) = s"
proof (cases "s = []")
  case True
  then show ?thesis by simp
next
  case False
  with assms have "dropWhile P s = s" and "dropWhile P (rev s) = rev s"
    by (simp_all add: dropWhile_eq_self_iff hd_rev)
  then show ?thesis by simp
qed

lemma last_dropWhile: "dropWhile P xs \<noteq> [] \<Longrightarrow> last (dropWhile P xs) = last xs"
  by (induction xs) (auto split: if_splits)

lemma trim_ends:
  assumes "t = rev (dropWhile P (rev (dropWhile P s)))"
  shows "t = [] \<or> (\<not> P (hd t) \<and> \<not> P (last t))"
proof (cases "t = []")
  case True
  then show ?thesis by simp
next
  case False
  let ?u = "dropWhile P s" and ?w = "dropWhile P (rev (dropWhile P s))"
  from False have w: "?w \<noteq> []" by (simp add: assms)
  have u: "?u \<noteq> []"
  proof
    assume "?u = []"
    with w show False by (metis dropWhile.simps(1) rev.simps(1))
  qed
  from w have "\<not> P (hd ?w)" by (rule hd_dropWhile)
  then have "\<not> P (last t)" by (simp add: assms last_rev)
  moreover from w have "last ?w = last (rev ?u)" by (rule last_dropWhile)
  then have "hd t = hd ?u" by (simp add: assms hd_rev last_rev)
  with hd_dropWhile [OF u] have "\<not> P (hd t)" by simp
  ultimately show ?thesis by simp
qed

lemma strip_ends: "strip s = [] \<or> (\<not> isspace (hd (strip s)) \<and> \<not> isspace (last (strip s)))"
  by (rule trim_ends) (simp add: strip_def)

lemma number_space_isspace: "number_space c \<Longrightarrow> isspace c"
  by (auto simp: number_space_def isspace_def)

lemma number_strip_fixed:
  "s = [] \<or> (\<not> isspace (hd s) \<and> \<not> isspace (last s)) \<Longrightarrow> number_strip s = s"
  unfolding number_strip_def by (rule trim_fixed) (auto dest: number_space_isspace)

lemma strip_fixed:
  "s = [] \<or> (\<not> isspace (hd s) \<and> \<not> isspace (last s)) \<Longrightarrow> strip s = s"
  unfolding strip_def by (rule trim_fixed)

lemma number_strip_strip: "number_strip (strip s) = strip s"
  using strip_ends [of s] by (rule number_strip_fixed)

subsection \<open>Digits\<close>

lemma isdecimal_not_space: "isdecimal c \<Longrightarrow> \<not> isspace c"
  by (auto simp: isdecimal_def isspace_def)

lemma isdigit_char_not_space: "isdigit_char c \<Longrightarrow> \<not> isspace c"
  by (auto simp: isdigit_char_def isdecimal_def isspace_def)

lemma isdecimal_not_sign: "isdecimal c \<Longrightarrow> c \<noteq> CHR ''-'' \<and> c \<noteq> CHR ''+'' \<and> c \<noteq> CHR ''_'' \<and> c \<noteq> CHR ''.'' \<and> \<not> is_e c"
  by (auto simp: isdecimal_def is_e_def)

lemma isdigit_char_not_sign: "isdigit_char c \<Longrightarrow> c \<noteq> CHR ''-'' \<and> c \<noteq> CHR ''+'' \<and> c \<noteq> CHR ''_''"
  by (auto simp: isdigit_char_def isdecimal_def)

lemma digitpart_decimals:
  "s \<noteq> [] \<Longrightarrow> list_all isdecimal s \<Longrightarrow> digitpart s = Some s"
proof (induction s rule: digitpart.induct)
  case 1
  then show ?case by simp
next
  case (2 c)
  then show ?case by simp
next
  case (3 c d cs)
  then show ?case by (auto dest: isdecimal_not_sign)
qed

lemma digitpart_chars:
  "digitpart s = Some ds \<Longrightarrow> s \<noteq> [] \<and> isdecimal (hd s) \<and> isdecimal (last s) \<and> (\<forall>c \<in> set s. isdecimal c \<or> c = CHR ''_'')"
proof (induction s arbitrary: ds rule: digitpart.induct)
  case 1
  then show ?case by simp
next
  case (2 c)
  then show ?case by (simp split: if_splits)
next
  case (3 c d cs)
  show ?case
  proof (cases "d = CHR ''_''")
    case True
    with "3.prems" obtain es where "isdecimal c" "digitpart cs = Some es"
      by (auto split: if_splits)
    with "3.IH"(1) [of es] True show ?thesis by auto
  next
    case False
    with "3.prems" obtain es where "isdecimal c" "digitpart (d # cs) = Some es"
      by (auto split: if_splits)
    with "3.IH"(2) [of es] False show ?thesis by auto
  qed
qed

lemma digitpart_group: "digitpart s = Some ds \<Longrightarrow> digit_group s"
proof (induction s arbitrary: ds rule: digitpart.induct)
  case 1
  then show ?case by simp
next
  case (2 c)
  then show ?case by (auto split: if_splits intro: digit_group.one)
next
  case (3 c d cs)
  show ?case
  proof (cases "d = CHR ''_''")
    case True
    with "3.prems" obtain es where "isdecimal c" "digitpart cs = Some es"
      by (auto split: if_splits)
    with "3.IH"(1) [of es] True show ?thesis by (auto intro: digit_group.under)
  next
    case False
    with "3.prems" obtain es where "isdecimal c" "digitpart (d # cs) = Some es"
      by (auto split: if_splits)
    with "3.IH"(2) [of es] False show ?thesis by (auto intro: digit_group.more)
  qed
qed

lemma digit_group_hd: "digit_group s \<Longrightarrow> s \<noteq> [] \<and> isdecimal (hd s)"
  by (induction rule: digit_group.induct) auto

lemma group_digitpart: "digit_group s \<Longrightarrow> \<exists>ds. digitpart s = Some ds"
proof (induction rule: digit_group.induct)
  case (one c)
  then show ?case by simp
next
  case (more c ds)
  from digit_group_hd [OF more.hyps(2)] obtain e es where ds: "ds = e # es" "isdecimal e"
    by (cases ds) auto
  with more show ?case by (auto dest: isdecimal_not_sign)
next
  case (under c ds)
  then show ?case by auto
qed

lemma digit_group_iff: "digit_group s \<longleftrightarrow> digitpart s \<noteq> None"
proof
  assume "digit_group s"
  from group_digitpart [OF this] show "digitpart s \<noteq> None" by auto
next
  assume "digitpart s \<noteq> None"
  then obtain ds where "digitpart s = Some ds" by auto
  then show "digit_group s" by (rule digitpart_group)
qed

lemma digit_group_chars:
  "digit_group s \<Longrightarrow> isdecimal (last s) \<and> (\<forall>c \<in> set s. isdecimal c \<or> c = CHR ''_'')"
  using group_digitpart digitpart_chars by blast

subsection \<open>Integer texts\<close>

lemma split_sign_decimal: "isdecimal c \<Longrightarrow> split_sign (c # cs) = (False, c # cs)"
  by (auto dest: isdecimal_not_sign)

lemma plain_int_ends:
  assumes "plain_int_text s"
  shows "s \<noteq> []" and "isdecimal (hd s)" and "isdecimal (last s)" and "\<forall>c \<in> set s. isdecimal c"
  using assms by (auto simp: plain_int_text_def list_all_iff)

lemma plain_int_isdigit: "plain_int_text s \<Longrightarrow> isdigit s"
  by (auto simp: plain_int_text_def isdigit_def isdigit_char_def list_all_iff)

lemma py_int_plain:
  assumes "plain_int_text s" and "length s \<le> int_max_str_digits"
  shows "py_int s = Some (digits_val s)" and "py_int (CHR ''-'' # s) = Some (- digits_val s)"
proof -
  from assms(1) obtain c cs where s: "s = c # cs" and c: "isdecimal c"
    by (cases s) (auto simp: plain_int_text_def)
  from plain_int_ends [OF assms(1)] have "number_strip s = s"
    by (intro number_strip_fixed) (auto dest: isdecimal_not_space)
  moreover from assms(1) have part: "digitpart s = Some s"
    by (simp add: plain_int_text_def digitpart_decimals)
  moreover from c have "split_sign s = (False, s)"
    unfolding s by (rule split_sign_decimal)
  ultimately show "py_int s = Some (digits_val s)"
    using assms(2) by (simp add: py_int_def)
  from plain_int_ends [OF assms(1)] have "\<not> isspace (last (CHR ''-'' # s))"
    by (auto dest: isdecimal_not_space)
  then have "number_strip (CHR ''-'' # s) = CHR ''-'' # s"
    by (intro number_strip_fixed) (simp add: isspace_def)
  with part assms(2) show "py_int (CHR ''-'' # s) = Some (- digits_val s)"
    by (simp add: py_int_def)
qed

lemma coord_value_plain_int:
  assumes "plain_int_text s" and "length s \<le> int_max_str_digits"
  shows "coord_value s = Some (PInt (digits_val s))"
  using assms by (simp add: coord_value_def plain_int_isdigit py_int_plain)

lemma coord_value_negative_int:
  assumes "plain_int_text s" and "length s \<le> int_max_str_digits"
  shows "coord_value (CHR ''-'' # s) = Some (PInt (- digits_val s))"
  using assms by (simp add: coord_value_def plain_int_isdigit py_int_plain startswith_minus_def)

lemma strip_plain_int:
  assumes "plain_int_text s"
  shows "strip s = s" and "strip (CHR ''-'' # s) = CHR ''-'' # s"
proof -
  from plain_int_ends [OF assms] show "strip s = s"
    by (intro strip_fixed) (auto dest: isdecimal_not_space)
  from plain_int_ends [OF assms] have "\<not> isspace (last (CHR ''-'' # s))"
    by (auto dest: isdecimal_not_space)
  then show "strip (CHR ''-'' # s) = CHR ''-'' # s"
    by (intro strip_fixed) (simp add: isspace_def)
qed

text \<open>The test of \<^verbatim>\<open>add_coord\<close> and the integer texts: a text that passes the test and that
  \<^verbatim>\<open>int\<close> accepts is an integer text, and an integer text passes the test.\<close>

lemma isdigit_decimals:
  assumes "isdigit s" and "digitpart s = Some ds"
  shows "plain_int_text s"
proof -
  from digitpart_chars [OF assms(2)] have "\<forall>c \<in> set s. isdecimal c \<or> c = CHR ''_''" by simp
  moreover from assms(1) have "\<forall>c \<in> set s. isdigit_char c" and "s \<noteq> []"
    by (auto simp: isdigit_def list_all_iff)
  ultimately have "\<forall>c \<in> set s. isdecimal c"
    by (auto dest: isdigit_char_not_sign)
  with \<open>s \<noteq> []\<close> show ?thesis by (simp add: plain_int_text_def list_all_iff)
qed

lemma isdigit_ends:
  assumes "isdigit s"
  shows "s \<noteq> []" and "\<not> isspace (hd s)" and "\<not> isspace (last s)"
    and "hd s \<noteq> CHR ''-''" and "hd s \<noteq> CHR ''+''"
proof -
  from assms show ne: "s \<noteq> []" by (simp add: isdigit_def)
  from assms have all: "\<forall>c \<in> set s. isdigit_char c" by (simp add: isdigit_def list_all_iff)
  with ne have "isdigit_char (hd s)" and "isdigit_char (last s)" by simp_all
  then show "\<not> isspace (hd s)" and "\<not> isspace (last s)"
    and "hd s \<noteq> CHR ''-''" and "hd s \<noteq> CHR ''+''"
    by (simp_all add: isdigit_char_not_space isdigit_char_not_sign)
qed

lemma py_int_isdigit:
  assumes "isdigit s" and "py_int s = Some n"
  shows "plain_int_text s"
proof -
  from isdigit_ends [OF assms(1)] have strip: "number_strip s = s"
    by (intro number_strip_fixed) simp
  from isdigit_ends [OF assms(1)] have "split_sign s = (False, s)"
    by (cases s) auto
  with assms(2) strip obtain ds where "digitpart s = Some ds"
    by (auto simp: py_int_def split: option.splits if_splits)
  with assms(1) show ?thesis by (rule isdigit_decimals)
qed

lemma py_int_minus_isdigit:
  assumes "isdigit r" and "py_int (CHR ''-'' # r) = Some n"
  shows "plain_int_text r"
proof -
  from isdigit_ends [OF assms(1)] have "\<not> isspace (last (CHR ''-'' # r))" by simp
  then have "number_strip (CHR ''-'' # r) = CHR ''-'' # r"
    by (intro number_strip_fixed) (simp add: isspace_def)
  with assms(2) obtain ds where "digitpart r = Some ds"
    by (auto simp: py_int_def split: option.splits if_splits)
  with assms(1) show ?thesis by (rule isdigit_decimals)
qed

lemma int_text_test:
  "int_text x \<Longrightarrow> isdigit x \<or> (startswith_minus x \<and> isdigit (drop 1 x))"
  by (auto simp: int_text_def startswith_minus_def dest: plain_int_isdigit)

lemma coord_value_kind:
  assumes "coord_value x = Some v"
  shows "if int_text x then \<exists>n. v = PInt n else \<exists>f. v = PFloat f"
proof (cases "isdigit x \<or> (startswith_minus x \<and> isdigit (drop 1 x))")
  case False
  with int_text_test have "\<not> int_text x" by blast
  moreover from False assms have "\<exists>f. v = PFloat f" by (auto simp: coord_value_def)
  ultimately show ?thesis by simp
next
  case True
  with assms obtain n where n: "py_int x = Some n" "v = PInt n"
    by (auto simp: coord_value_def)
  from True have "int_text x"
  proof
    assume "isdigit x"
    from py_int_isdigit [OF this n(1)] show ?thesis by (simp add: int_text_def)
  next
    assume minus: "startswith_minus x \<and> isdigit (drop 1 x)"
    then obtain r where x: "x = CHR ''-'' # r" by (cases x) (auto simp: startswith_minus_def)
    with minus n(1) have "plain_int_text r" by (auto intro: py_int_minus_isdigit)
    with x show ?thesis by (simp add: int_text_def)
  qed
  with n show ?thesis by simp
qed

subsection \<open>What float accepts is a number literal or a special word\<close>

lemma split_sign_decomp:
  assumes "split_sign s = (neg, body)"
  shows "\<exists>sg. opt_sign sg \<and> s = sg @ body"
proof (cases s)
  case Nil
  with assms show ?thesis by (simp add: opt_sign_def)
next
  case (Cons c cs)
  with assms show ?thesis
    by (cases "c = CHR ''-''"; cases "c = CHR ''+''") (auto simp: opt_sign_def)
qed

lemma hd_dropWhile_dot:
  assumes "dropWhile (\<lambda>c. c \<noteq> CHR ''.'') m = c # fp"
  shows "c = CHR ''.''"
  using hd_dropWhile [of "\<lambda>c. c \<noteq> CHR ''.''" m] assms by simp

lemma mantissa_sound:
  assumes "mantissa m = Some (ds, fs)"
  shows "mantissa_text m"
proof -
  let ?ip = "takeWhile (\<lambda>c. c \<noteq> CHR ''.'') m" and ?r = "dropWhile (\<lambda>c. c \<noteq> CHR ''.'') m"
  have m: "m = ?ip @ ?r" by simp
  show ?thesis
  proof (cases ?r)
    case Nil
    with assms have "digitpart ?ip \<noteq> None" by (auto simp: mantissa_def)
    then have "digit_group ?ip" by (simp add: digit_group_iff)
    moreover from Nil have "m = ?ip" by (metis append_Nil2 takeWhile_dropWhile_id)
    ultimately show ?thesis unfolding mantissa_text_def by metis
  next
    case (Cons c fp)
    then have c: "c = CHR ''.''" by (rule hd_dropWhile_dot)
    from m Cons c have m': "m = ?ip @ ''.'' @ fp" by simp
    consider "fp = []" | "fp \<noteq> []" "?ip = []" | "fp \<noteq> []" "?ip \<noteq> []" by blast
    then show ?thesis
    proof cases
      case 1
      with assms Cons have "digitpart ?ip \<noteq> None" by (auto simp: mantissa_def)
      then have "digit_group ?ip" by (simp add: digit_group_iff)
      moreover from m' 1 have "m = ?ip @ ''.''" by simp
      ultimately show ?thesis unfolding mantissa_text_def by metis
    next
      case 2
      with assms Cons have "digitpart fp \<noteq> None" by (auto simp: mantissa_def)
      then have "digit_group fp" by (simp add: digit_group_iff)
      moreover from m' 2 have "m = ''.'' @ fp" by simp
      ultimately show ?thesis unfolding mantissa_text_def by metis
    next
      case 3
      with assms Cons have "digitpart ?ip \<noteq> None" and "digitpart fp \<noteq> None"
        by (auto simp: mantissa_def split: option.splits)
      then have "digit_group ?ip" and "digit_group fp" by (simp_all add: digit_group_iff)
      with m' show ?thesis unfolding mantissa_text_def by metis
    qed
  qed
qed

lemma exponent_sound:
  assumes "exponent (dropWhile (\<lambda>c. \<not> is_e c) body) = Some e"
  shows "exponent_text (dropWhile (\<lambda>c. \<not> is_e c) body)"
proof (cases "dropWhile (\<lambda>c. \<not> is_e c) body")
  case Nil
  then show ?thesis by (simp add: exponent_text_def)
next
  case (Cons c r)
  with hd_dropWhile [of "\<lambda>c. \<not> is_e c" body] have c: "is_e c" by simp
  obtain neg ds where sp: "split_sign r = (neg, ds)" by (cases "split_sign r")
  with assms Cons have "digitpart ds \<noteq> None" by (auto simp: exponent_def split: option.splits)
  then have "digit_group ds" by (simp add: digit_group_iff)
  moreover from split_sign_decomp [OF sp] obtain sg where "opt_sign sg" "r = sg @ ds" by blast
  ultimately show ?thesis using c Cons unfolding exponent_text_def by auto
qed

lemma py_float_sound:
  assumes "py_float x = Some f" and "number_strip x = x"
  shows "number_text x \<or> special_text x"
proof -
  obtain neg body where sp: "split_sign x = (neg, body)" by (cases "split_sign x")
  from split_sign_decomp [OF sp] obtain sg where sg: "opt_sign sg" "x = sg @ body" by blast
  show ?thesis
  proof (cases "ascii_lower body \<in> {''inf'', ''infinity'', ''nan''}")
    case True
    with sg show ?thesis unfolding special_text_def by blast
  next
    case False
    let ?m = "takeWhile (\<lambda>c. \<not> is_e c) body" and ?ex = "dropWhile (\<lambda>c. \<not> is_e c) body"
    from False assms sp obtain ds fs e where "mantissa ?m = Some (ds, fs)" "exponent ?ex = Some e"
      by (auto simp: py_float_def split: option.splits if_splits)
    then have "mantissa_text ?m" and "exponent_text ?ex"
      by (auto intro: mantissa_sound exponent_sound)
    moreover have "x = sg @ ?m @ ?ex" using sg by simp
    ultimately have "number_text x" using sg(1) unfolding number_text_def by blast
    then show ?thesis ..
  qed
qed

lemma py_int_sound:
  assumes "py_int x = Some n" and "number_strip x = x"
  shows "number_text x"
proof -
  obtain neg body where sp: "split_sign x = (neg, body)" by (cases "split_sign x")
  from split_sign_decomp [OF sp] obtain sg where sg: "opt_sign sg" "x = sg @ body" by blast
  from assms sp have "digitpart body \<noteq> None"
    by (auto simp: py_int_def split: option.splits if_splits)
  then have "digit_group body" by (simp add: digit_group_iff)
  then have "mantissa_text body" unfolding mantissa_text_def by blast
  moreover have "exponent_text []" by (simp add: exponent_text_def)
  moreover have "x = sg @ body @ []" using sg by simp
  ultimately show ?thesis using sg(1) unfolding number_text_def by blast
qed

lemma coord_value_sound:
  assumes "coord_value x = Some v" and "number_strip x = x"
  shows "number_text x \<or> special_text x"
  using assms
  by (auto simp: coord_value_def split: if_splits dest: py_int_sound py_float_sound)

subsection \<open>Every number literal and special word is accepted\<close>

lemma span_unique:
  assumes "\<forall>c \<in> set m. P c" and "ex = [] \<or> \<not> P (hd ex)"
  shows "takeWhile P (m @ ex) = m" and "dropWhile P (m @ ex) = ex"
proof -
  from assms(2) have "takeWhile P ex = []" and "dropWhile P ex = ex"
    by (simp_all add: takeWhile_eq_Nil_iff dropWhile_eq_self_iff)
  with assms(1) show "takeWhile P (m @ ex) = m" and "dropWhile P (m @ ex) = ex"
    by simp_all
qed

lemma digit_group_ends:
  assumes "digit_group s"
  shows "s \<noteq> []" and "isdecimal (hd s)" and "isdecimal (last s)"
    and "\<forall>c \<in> set s. isdecimal c \<or> c = CHR ''_''"
  using digit_group_hd [OF assms] digit_group_chars [OF assms] by simp_all

lemma digit_group_no_dot: "digit_group s \<Longrightarrow> \<forall>c \<in> set s. c \<noteq> CHR ''.''"
  using digit_group_ends(4) isdecimal_not_sign by fastforce

lemma digit_group_no_e: "digit_group s \<Longrightarrow> \<forall>c \<in> set s. \<not> is_e c"
proof
  fix c assume "digit_group s" and "c \<in> set s"
  with digit_group_ends(4) have "isdecimal c \<or> c = CHR ''_''" by blast
  then show "\<not> is_e c" by (auto dest: isdecimal_not_sign simp: is_e_def)
qed

lemma digit_group_part: "digit_group s \<Longrightarrow> digitpart s \<noteq> None"
  by (simp add: digit_group_iff)

lemma mantissa_text_cases:
  assumes "mantissa_text m"
  obtains ip where "digit_group ip" "m = ip"
    | ip where "digit_group ip" "m = ip @ ''.''"
    | fp where "digit_group fp" "m = ''.'' @ fp"
    | ip fp where "digit_group ip" "digit_group fp" "m = ip @ ''.'' @ fp"
  using assms unfolding mantissa_text_def by (elim disjE exE conjE) auto

lemma mantissa_complete:
  assumes "mantissa_text m"
  shows "mantissa m \<noteq> None"
proof -
  let ?P = "\<lambda>c. c \<noteq> CHR ''.''"
  from assms show ?thesis
  proof (cases rule: mantissa_text_cases)
    case (1 ip)
    from span_unique [of ip ?P "[]"] digit_group_no_dot [OF 1(1)]
    have tw: "takeWhile ?P m = ip" and dw: "dropWhile ?P m = []" using 1(2) by simp_all
    from digit_group_part [OF 1(1)] show ?thesis
      unfolding mantissa_def Let_def tw dw by auto
  next
    case (2 ip)
    from span_unique [of ip ?P "''.''"] digit_group_no_dot [OF 2(1)]
    have tw: "takeWhile ?P m = ip" and dw: "dropWhile ?P m = ''.''" using 2(2) by simp_all
    from digit_group_part [OF 2(1)] show ?thesis
      unfolding mantissa_def Let_def tw dw by auto
  next
    case (3 fp)
    have tw: "takeWhile ?P m = []" and dw: "dropWhile ?P m = CHR ''.'' # fp"
      using 3(2) by simp_all
    from digit_group_part [OF 3(1)] digit_group_ends(1) [OF 3(1)] show ?thesis
      unfolding mantissa_def Let_def tw dw by auto
  next
    case (4 ip fp)
    from span_unique [of ip ?P "CHR ''.'' # fp"] digit_group_no_dot [OF 4(1)]
    have tw: "takeWhile ?P m = ip" and dw: "dropWhile ?P m = CHR ''.'' # fp"
      using 4(3) by simp_all
    from digit_group_part [OF 4(1)] digit_group_part [OF 4(2)]
      digit_group_ends(1) [OF 4(1)] digit_group_ends(1) [OF 4(2)]
    show ?thesis
      unfolding mantissa_def Let_def tw dw by auto
  qed
qed

lemma split_sign_opt:
  assumes "opt_sign sg" and "body = [] \<or> (hd body \<noteq> CHR ''-'' \<and> hd body \<noteq> CHR ''+'')"
  shows "split_sign (sg @ body) = (sg = ''-'', body)"
  using assms by (cases body) (auto simp: opt_sign_def)

lemma exponent_complete:
  assumes "exponent_text ex"
  shows "exponent ex \<noteq> None"
proof (cases "ex = []")
  case True
  then show ?thesis by (simp add: exponent_def)
next
  case False
  with assms obtain c sg dp where ex: "is_e c" "opt_sign sg" "digit_group dp" "ex = c # sg @ dp"
    unfolding exponent_text_def by blast
  from digit_group_ends [OF ex(3)] have "hd dp \<noteq> CHR ''-'' \<and> hd dp \<noteq> CHR ''+''"
    by (auto dest: isdecimal_not_sign)
  with ex(2) have "split_sign (sg @ dp) = (sg = ''-'', dp)" by (intro split_sign_opt) simp_all
  with digit_group_part [OF ex(3)] ex(4) show ?thesis by (auto simp: exponent_def)
qed

lemma mantissa_text_ends:
  assumes "mantissa_text m"
  shows "m \<noteq> []" and "isdecimal (hd m) \<or> hd m = CHR ''.''"
    and "isdecimal (last m) \<or> last m = CHR ''.''"
    and "\<forall>c \<in> set m. isdecimal c \<or> c = CHR ''_'' \<or> c = CHR ''.''"
proof -
  from assms have "m \<noteq> [] \<and> (isdecimal (hd m) \<or> hd m = CHR ''.'') \<and>
    (isdecimal (last m) \<or> last m = CHR ''.'') \<and>
    (\<forall>c \<in> set m. isdecimal c \<or> c = CHR ''_'' \<or> c = CHR ''.'')"
  proof (cases rule: mantissa_text_cases)
    case (1 ip)
    with digit_group_ends [OF 1(1)] show ?thesis by auto
  next
    case (2 ip)
    with digit_group_ends [OF 2(1)] show ?thesis by auto
  next
    case (3 fp)
    with digit_group_ends [OF 3(1)] show ?thesis by auto
  next
    case (4 ip fp)
    with digit_group_ends [OF 4(1)] digit_group_ends [OF 4(2)] show ?thesis by auto
  qed
  then show "m \<noteq> []" and "isdecimal (hd m) \<or> hd m = CHR ''.''"
    and "isdecimal (last m) \<or> last m = CHR ''.''"
    and "\<forall>c \<in> set m. isdecimal c \<or> c = CHR ''_'' \<or> c = CHR ''.''"
    by simp_all
qed

lemma exponent_text_ends:
  assumes "exponent_text ex" and "ex \<noteq> []"
  shows "is_e (hd ex)" and "isdecimal (last ex)"
    and "\<forall>c \<in> set ex. isdecimal c \<or> c = CHR ''_'' \<or> c = CHR ''-'' \<or> c = CHR ''+'' \<or> is_e c"
proof -
  from assms obtain c sg dp where ex: "is_e c" "opt_sign sg" "digit_group dp" "ex = c # sg @ dp"
    unfolding exponent_text_def by blast
  from ex(1,4) show "is_e (hd ex)" by simp
  from digit_group_ends [OF ex(3)] ex(4) show "isdecimal (last ex)" by simp
  from digit_group_ends(4) [OF ex(3)] ex(1,2,4)
  show "\<forall>c \<in> set ex. isdecimal c \<or> c = CHR ''_'' \<or> c = CHR ''-'' \<or> c = CHR ''+'' \<or> is_e c"
    by (auto simp: opt_sign_def)
qed

lemma not_special:
  assumes "isdecimal c \<or> c = CHR ''.''"
  shows "ascii_lower (c # cs) \<notin> {''inf'', ''infinity'', ''nan''}"
  using assms by (auto simp: ascii_lower_def isdecimal_def)

lemma mantissa_char:
  assumes "isdecimal c \<or> c = CHR ''_'' \<or> c = CHR ''.''"
  shows "\<not> is_e c" and "\<not> isspace c"
  using assms by (auto simp: isdecimal_def is_e_def isspace_def)

lemma mantissa_hd_char:
  assumes "isdecimal c \<or> c = CHR ''.''"
  shows "c \<noteq> CHR ''-''" and "c \<noteq> CHR ''+''" and "\<not> isspace c"
  using assms by (auto simp: isdecimal_def isspace_def)

lemma opt_sign_cases:
  assumes "opt_sign sg"
  obtains "sg = []" | "sg = ''+''" | "sg = ''-''"
  using assms unfolding opt_sign_def by blast

lemma py_float_number:
  assumes "opt_sign sg" and "mantissa_text m" and "exponent_text ex"
  shows "py_float (sg @ m @ ex) \<noteq> None"
proof -
  let ?x = "sg @ m @ ex" and ?P = "\<lambda>c. \<not> is_e c"
  note me = mantissa_text_ends [OF assms(2)]
  from me(1) obtain c cs where m: "m = c # cs" by (cases m) auto
  with me(2) have c: "isdecimal c \<or> c = CHR ''.''" by simp
  have last_x: "isdecimal (last ?x) \<or> last ?x = CHR ''.''"
  proof (cases "ex = []")
    case True
    with me(1,3) show ?thesis by simp
  next
    case False
    with exponent_text_ends(2) [OF assms(3)] show ?thesis by simp
  qed
  from assms(1) have hd_x: "\<not> isspace (hd ?x)"
  proof (cases rule: opt_sign_cases)
    case 1
    with mantissa_hd_char(3) [OF c] show ?thesis by (simp add: m)
  next
    case 2
    then show ?thesis by (simp add: isspace_def)
  next
    case 3
    then show ?thesis by (simp add: isspace_def)
  qed
  from mantissa_hd_char(3) [OF last_x] hd_x have strip: "number_strip ?x = ?x"
    by (intro number_strip_fixed) simp
  from mantissa_hd_char(1,2) [OF c] have "hd (m @ ex) \<noteq> CHR ''-'' \<and> hd (m @ ex) \<noteq> CHR ''+''"
    by (simp add: m)
  with assms(1) have sp: "split_sign ?x = (sg = ''-'', m @ ex)"
    by (intro split_sign_opt) simp_all
  from not_special [OF c, of "cs @ ex"]
  have special: "ascii_lower (m @ ex) \<noteq> ''inf''" "ascii_lower (m @ ex) \<noteq> ''infinity''"
    "ascii_lower (m @ ex) \<noteq> ''nan''"
    unfolding m by simp_all
  have no_e: "\<forall>c \<in> set m. ?P c"
  proof
    fix c assume "c \<in> set m"
    with me(4) have "isdecimal c \<or> c = CHR ''_'' \<or> c = CHR ''.''" by blast
    then show "\<not> is_e c" by (rule mantissa_char(1))
  qed
  from assms(3) exponent_text_ends(1) have "ex = [] \<or> \<not> ?P (hd ex)" by blast
  from span_unique [OF no_e this]
  have span: "takeWhile ?P (m @ ex) = m" "dropWhile ?P (m @ ex) = ex" .
  from mantissa_complete [OF assms(2)] exponent_complete [OF assms(3)]
  obtain ds fs e where "mantissa m = Some (ds, fs)" "exponent ex = Some e" by auto
  then show ?thesis
    unfolding py_float_def strip sp prod.case span using special by (simp add: Let_def)
qed

lemma ascii_lower_keep:
  assumes "isspace c \<or> isdigit_char c \<or> c = CHR ''-'' \<or> c = CHR ''+''"
  shows "(if 65 \<le> (of_char c :: nat) \<and> (of_char c :: nat) \<le> 90 then char_of ((of_char c :: nat) + 32) else c) = c"
  using assms by (auto simp: isspace_def isdigit_char_def isdecimal_def)

lemma special_word_ends:
  assumes "ascii_lower w \<in> {''inf'', ''infinity'', ''nan''}"
  shows "w \<noteq> []"
    and "\<not> (isspace (hd w) \<or> isdigit_char (hd w) \<or> hd w = CHR ''-'' \<or> hd w = CHR ''+'')"
    and "\<not> (isspace (last w) \<or> isdigit_char (last w) \<or> last w = CHR ''-'' \<or> last w = CHR ''+'')"
proof -
  let ?lc = "\<lambda>c. if 65 \<le> (of_char c :: nat) \<and> (of_char c :: nat) \<le> 90 then char_of ((of_char c :: nat) + 32) else c"
  from assms show ne: "w \<noteq> []" by (auto simp: ascii_lower_def)
  then have "hd (ascii_lower w) = ?lc (hd w)" and "last (ascii_lower w) = ?lc (last w)"
    by (simp_all add: ascii_lower_def hd_map last_map)
  moreover from assms have "hd (ascii_lower w) \<in> {CHR ''i'', CHR ''n''}"
    and "last (ascii_lower w) \<in> {CHR ''f'', CHR ''y'', CHR ''n''}"
    by auto
  ultimately have h: "?lc (hd w) \<in> {CHR ''i'', CHR ''n''}"
    and l: "?lc (last w) \<in> {CHR ''f'', CHR ''y'', CHR ''n''}" by simp_all
  show "\<not> (isspace (hd w) \<or> isdigit_char (hd w) \<or> hd w = CHR ''-'' \<or> hd w = CHR ''+'')"
  proof
    assume bad: "isspace (hd w) \<or> isdigit_char (hd w) \<or> hd w = CHR ''-'' \<or> hd w = CHR ''+''"
    from ascii_lower_keep [OF bad] h have "hd w \<in> {CHR ''i'', CHR ''n''}" by simp
    with bad show False by (auto simp: isspace_def isdigit_char_def isdecimal_def)
  qed
  show "\<not> (isspace (last w) \<or> isdigit_char (last w) \<or> last w = CHR ''-'' \<or> last w = CHR ''+'')"
  proof
    assume bad: "isspace (last w) \<or> isdigit_char (last w) \<or> last w = CHR ''-'' \<or> last w = CHR ''+''"
    from ascii_lower_keep [OF bad] l have "last w \<in> {CHR ''f'', CHR ''y'', CHR ''n''}" by simp
    with bad show False by (auto simp: isspace_def isdigit_char_def isdecimal_def)
  qed
qed

lemma special_text_ends:
  assumes "opt_sign sg" and "ascii_lower w \<in> {''inf'', ''infinity'', ''nan''}"
  shows "\<not> isspace (hd (sg @ w))" and "\<not> isspace (last (sg @ w))"
    and "\<not> isdigit_char (last (sg @ w))"
proof -
  note w = special_word_ends [OF assms(2)]
  from w(1,3) show "\<not> isspace (last (sg @ w))" and "\<not> isdigit_char (last (sg @ w))"
    by simp_all
  from assms(1) show "\<not> isspace (hd (sg @ w))"
  proof (cases rule: opt_sign_cases)
    case 1
    with w(2) show ?thesis by simp
  next
    case 2
    then show ?thesis by (simp add: isspace_def)
  next
    case 3
    then show ?thesis by (simp add: isspace_def)
  qed
qed

lemma py_float_special:
  assumes "opt_sign sg" and "ascii_lower w \<in> {''inf'', ''infinity'', ''nan''}"
  shows "py_float (sg @ w) \<noteq> None"
proof -
  note w = special_word_ends [OF assms(2)]
  from special_text_ends(1,2) [OF assms] have strip: "number_strip (sg @ w) = sg @ w"
    by (intro number_strip_fixed) simp
  from w(2) assms(1) have sp: "split_sign (sg @ w) = (sg = ''-'', w)"
    by (intro split_sign_opt) simp_all
  from assms(2) show ?thesis
    unfolding py_float_def strip sp prod.case by auto
qed

lemma isdigit_last: "isdigit s \<Longrightarrow> isdigit_char (last s)"
  by (simp add: isdigit_def list_all_iff)

lemma test_last:
  assumes "isdigit x \<or> (startswith_minus x \<and> isdigit (drop 1 x))"
  shows "isdigit_char (last x)"
proof -
  from assms consider "isdigit x" | r where "x = CHR ''-'' # r" "isdigit r"
    by (cases x) (auto simp: startswith_minus_def)
  then show ?thesis
  proof cases
    case 1
    then show ?thesis by (rule isdigit_last)
  next
    case 2
    from 2(2) have "r \<noteq> []" by (simp add: isdigit_def)
    with isdigit_last [OF 2(2)] 2(1) show ?thesis by simp
  qed
qed

lemma number_text_chars:
  assumes "number_text x"
  shows "\<forall>c \<in> set x. isdecimal c \<or> c = CHR ''_'' \<or> c = CHR ''.'' \<or> c = CHR ''-'' \<or> c = CHR ''+'' \<or> is_e c"
proof -
  from assms obtain sg m ex where x: "opt_sign sg" "mantissa_text m" "exponent_text ex" "x = sg @ m @ ex"
    unfolding number_text_def by blast
  have "\<forall>c \<in> set sg. c = CHR ''-'' \<or> c = CHR ''+''"
    using x(1) by (cases rule: opt_sign_cases) simp_all
  moreover note mantissa_text_ends(4) [OF x(2)]
  moreover have "\<forall>c \<in> set ex. isdecimal c \<or> c = CHR ''_'' \<or> c = CHR ''-'' \<or> c = CHR ''+'' \<or> is_e c"
    using exponent_text_ends(3) [OF x(3)] by (cases "ex = []") simp_all
  ultimately show ?thesis unfolding x(4) by auto
qed

lemma digit_in_literal:
  assumes "isdigit_char c"
    and "isdecimal c \<or> c = CHR ''_'' \<or> c = CHR ''.'' \<or> c = CHR ''-'' \<or> c = CHR ''+'' \<or> is_e c"
  shows "isdecimal c"
proof (rule ccontr)
  assume no: "\<not> isdecimal c"
  with assms(1) have sup: "(of_char c :: nat) \<in> {178, 179, 185}" by (simp add: isdigit_char_def)
  from no assms(2) have "c = CHR ''_'' \<or> c = CHR ''.'' \<or> c = CHR ''-'' \<or> c = CHR ''+'' \<or> c = CHR ''e'' \<or> c = CHR ''E''"
    by (simp add: is_e_def)
  then have "(of_char c :: nat) < 128" by (elim disjE) simp_all
  with sup show False by auto
qed

lemma isdigit_literal_plain:
  assumes "isdigit s"
    and "\<forall>c \<in> set s. isdecimal c \<or> c = CHR ''_'' \<or> c = CHR ''.'' \<or> c = CHR ''-'' \<or> c = CHR ''+'' \<or> is_e c"
  shows "plain_int_text s"
proof -
  from assms(1) have "s \<noteq> []" and all: "\<forall>c \<in> set s. isdigit_char c"
    by (simp_all add: isdigit_def list_all_iff)
  have "\<forall>c \<in> set s. isdecimal c"
  proof
    fix c assume "c \<in> set s"
    with all assms(2) show "isdecimal c" by (blast intro: digit_in_literal)
  qed
  with \<open>s \<noteq> []\<close> show ?thesis by (simp add: plain_int_text_def list_all_iff)
qed

lemma add_coord_numbers_error:
  assumes "p \<noteq> []" and "strip name_var \<noteq> []"
  shows "add_coord d (Some p) name_var x_var y_var z_var
           = (d, ShowError ''Validation'' ''X, Y and Z must be numbers.'')
         \<longleftrightarrow> coord_value (strip x_var) = None \<or> coord_value (strip y_var) = None \<or>
             coord_value (strip z_var) = None"
  using assms by (auto simp: add_coord_def Let_def split: option.splits sum.splits)


lemma add_coord_rejects:
  assumes "p \<noteq> []" and "strip name_var \<noteq> []"
    and "\<exists>t \<in> {x_var, y_var, z_var}. \<not> (number_text (strip t) \<or> special_text (strip t))"
  shows "add_coord d (Some p) name_var x_var y_var z_var
           = (d, ShowError ''Validation'' ''X, Y and Z must be numbers.'')"
proof -
  from assms(3) coord_value_sound [OF _ number_strip_strip]
  have "coord_value (strip x_var) = None \<or> coord_value (strip y_var) = None \<or>
        coord_value (strip z_var) = None"
    by (cases "coord_value (strip x_var)"; cases "coord_value (strip y_var)";
        cases "coord_value (strip z_var)") auto
  with add_coord_numbers_error [OF assms(1,2)] show ?thesis by simp
qed

text \<open>
  Claim C3. The handler means to refuse every text that is not a number: its comment
  says ``Try to parse numbers'' and its error box ``X, Y and Z must be numbers.''. A text
  outside Python's number literals and the words \<^verbatim>\<open>inf\<close>, \<^verbatim>\<open>infinity\<close> and \<^verbatim>\<open>nan\<close> is
  refused with that box and the dataset is left as it was (\<open>add_coord_rejects\<close>), the
  empty text among them. But the handler leaves the test to \<^verbatim>\<open>float\<close>, which reads the
  word \<^verbatim>\<open>nan\<close>: the text \<^verbatim>\<open>"nan"\<close>, which is no number, is accepted and the coordinate
  is stored with not-a-number as its x.
\<close>

theorem add_coord_nan_stored:
  "add_coord [(''p'', new_profile)] (Some ''p'') ''Home'' ''nan'' ''0'' ''0''
     = ([(''p'', PDict [(''seed'', PStr []),
                        (''coords'', PList [PDict [(''name'', PStr ''Home''), (''x'', PFloat NaN),
                                                   (''y'', PInt 0), (''z'', PInt 0)]])])],
        Done)"
  by (simp add: handler_defs number_defs)

section \<open>Integral and fractional values\<close>

lemma to_double_three_halves: "to_double False (3 / 2) = Fin (3 / 2)"
  by code_simp

text \<open>
  Claim C2, as amended. When \<^verbatim>\<open>add_coord\<close> runs to its end, the entry it appends has the
  trimmed name and, for each of the three fields on its own, an \<^verbatim>\<open>int\<close> when the text of
  the field, after trimming surrounding whitespace, is an optional minus sign followed only
  by digits, and a \<^verbatim>\<open>float\<close> otherwise. For the texts \<^verbatim>\<open>"1.5"\<close>, \<^verbatim>\<open>"64"\<close> and \<^verbatim>\<open>"200"\<close>
  that is the fraction 3/2 and the integers 64 and 200.
\<close>

theorem add_coord_number_kinds:
  assumes "add_coord d profile name_var x_var y_var z_var = (d', Done)"
  shows "\<exists>p cs x_val y_val z_val.
           profile = Some p \<and>
           only_coords_changed d d' p cs
             (cs @ [PDict [(''name'', PStr (strip name_var)),
                           (''x'', x_val), (''y'', y_val), (''z'', z_val)]]) \<and>
           (if int_text (strip x_var) then \<exists>n. x_val = PInt n else \<exists>f. x_val = PFloat f) \<and>
           (if int_text (strip y_var) then \<exists>n. y_val = PInt n else \<exists>f. y_val = PFloat f) \<and>
           (if int_text (strip z_var) then \<exists>n. z_val = PInt n else \<exists>f. z_val = PFloat f)"
proof -
  from add_coord_Done [OF assms] obtain p pd cs x_val y_val z_val where
    p: "profile = Some p" and x: "coord_value (strip x_var) = Some x_val"
    and y: "coord_value (strip y_var) = Some y_val" and z: "coord_value (strip z_var) = Some z_val"
    and pd: "map_of d p = Some (PDict pd)" and cs: "map_of pd ''coords'' = Some (PList cs)"
    and d': "d' = set_coords d p pd
                  (cs @ [PDict [(''name'', PStr (strip name_var)),
                                (''x'', x_val), (''y'', y_val), (''z'', z_val)]])"
    by blast
  from set_coords_frame [OF pd cs] d'
  have "only_coords_changed d d' p cs
          (cs @ [PDict [(''name'', PStr (strip name_var)),
                        (''x'', x_val), (''y'', y_val), (''z'', z_val)]])" by simp
  with p coord_value_kind [OF x] coord_value_kind [OF y] coord_value_kind [OF z]
  show ?thesis by blast
qed

theorem add_coord_number_kinds_witness:
  "add_coord [(''p'', new_profile)] (Some ''p'') ''Base'' ''1.5'' ''64'' ''200''
     = ([(''p'', PDict [(''seed'', PStr []),
                        (''coords'', PList [PDict [(''name'', PStr ''Base''), (''x'', PFloat (Fin (3 / 2))),
                                                   (''y'', PInt 64), (''z'', PInt 200)]])])],
        Done) \<and>
   \<not> int_text (strip ''1.5'') \<and> int_text (strip ''64'') \<and> int_text (strip ''200'') \<and>
   (\<exists>p cs x_val y_val z_val.
      Some ''p'' = Some p \<and>
      only_coords_changed [(''p'', new_profile)]
        [(''p'', PDict [(''seed'', PStr []),
                        (''coords'', PList [PDict [(''name'', PStr ''Base''), (''x'', PFloat (Fin (3 / 2))),
                                                   (''y'', PInt 64), (''z'', PInt 200)]])])]
        p cs
        (cs @ [PDict [(''name'', PStr (strip ''Base'')), (''x'', x_val), (''y'', y_val), (''z'', z_val)]]) \<and>
      (\<exists>f. x_val = PFloat f) \<and> (\<exists>n. y_val = PInt n) \<and> (\<exists>n. z_val = PInt n))"
proof -
  have run: "add_coord [(''p'', new_profile)] (Some ''p'') ''Base'' ''1.5'' ''64'' ''200''
     = ([(''p'', PDict [(''seed'', PStr []),
                        (''coords'', PList [PDict [(''name'', PStr ''Base''), (''x'', PFloat (Fin (3 / 2))),
                                                   (''y'', PInt 64), (''z'', PInt 200)]])])],
        Done)"
    by (simp add: handler_defs number_defs to_double_three_halves)
  have texts: "\<not> int_text (strip ''1.5'')" "int_text (strip ''64'')" "int_text (strip ''200'')"
    by (simp_all add: int_text_def plain_int_text_def isdecimal_def strip_def isspace_def)
  from add_coord_number_kinds [OF run] texts run show ?thesis by simp
qed

text \<open>
  The claim as it stands speaks of the text of the field itself. The handler trims the
  text first: \<^verbatim>\<open>" 5"\<close> is not a minus sign and digits, and it is stored as the integer 5.
\<close>

theorem add_coord_padded_text_counterexample:
  "\<not> int_text '' 5'' \<and>
   add_coord [(''p'', new_profile)] (Some ''p'') ''Base'' '' 5'' ''64'' ''200''
     = ([(''p'', PDict [(''seed'', PStr []),
                        (''coords'', PList [PDict [(''name'', PStr ''Base''), (''x'', PInt 5),
                                                   (''y'', PInt 64), (''z'', PInt 200)]])])],
        Done)"
  by (simp add: handler_defs number_defs int_text_def plain_int_text_def)

section \<open>Creating a profile\<close>

lemma update_fresh: "map_of d k = None \<Longrightarrow> AList.update k v d = d @ [(k, v)]"
  by (induction d) (auto split: if_splits)

lemma strip_nonempty: "strip s \<noteq> [] \<Longrightarrow> s \<noteq> []"
  by (auto simp: strip_def)

lemma add_profile_fresh:
  assumes "strip name0 \<noteq> []" and "map_of d (strip name0) = None"
  shows "add_profile d (Some name0) = (d @ [(strip name0, new_profile)], Done)"
  using assms strip_nonempty [OF assms(1)]
  by (simp add: add_profile_def update_fresh new_profile_def)

lemma add_profile_existing:
  assumes "name0 \<noteq> []" and "map_of d (strip name0) = Some v"
  shows "add_profile d (Some name0) = (d, ShowError ''Error'' ''Profile already exists.'')"
  using assms by (simp add: add_profile_def)

lemma count_list_insort_key: "count_list (insort_key f y xs) x = count_list (y # xs) x"
  by (induction xs) auto

lemma count_list_sort_key: "count_list (sort_key f xs) x = count_list xs x"
  by (induction xs) (simp_all add: count_list_insort_key)

lemma add_profile_listed_once:
  assumes "strip name0 \<noteq> []" and "map_of d (strip name0) = None"
  shows "count_list (refresh_profile_listbox (fst (add_profile d (Some name0)))) (strip name0) = 1"
    and "add_profile (fst (add_profile d (Some name0))) (Some name0)
           = (fst (add_profile d (Some name0)), ShowError ''Error'' ''Profile already exists.'')"
proof -
  from assms(2) have "strip name0 \<notin> set (map fst d)"
    by (simp add: map_of_eq_None_iff)
  then show "count_list (refresh_profile_listbox (fst (add_profile d (Some name0)))) (strip name0) = 1"
    by (simp add: add_profile_fresh [OF assms] refresh_profile_listbox_def count_list_sort_key)
  have "map_of (d @ [(strip name0, new_profile)]) (strip name0) = Some new_profile"
    using assms(2) by (simp add: map_add_def)
  from add_profile_existing [OF strip_nonempty [OF assms(1)] this]
  show "add_profile (fst (add_profile d (Some name0))) (Some name0)
           = (fst (add_profile d (Some name0)), ShowError ''Error'' ''Profile already exists.'')"
    by (simp add: add_profile_fresh [OF assms])
qed

text \<open>
  Claim C1. The handler \<^verbatim>\<open>add_profile\<close> tests the name for emptiness before it trims it.
  A name of blanks passes the test, is trimmed to the empty string and, no profile having
  that name, is stored: the profile list then shows a profile with the empty name, which
  no handler can select, since each takes the name \<^verbatim>\<open>""\<close> for no selection; it can be
  neither filled nor deleted. For a name whose trimmed text is not empty the handler does
  what the claim says (\<open>add_profile_fresh\<close>, \<open>add_profile_existing\<close>,
  \<open>add_profile_listed_once\<close>).
\<close>

theorem add_profile_blank_name:
  "add_profile [] (Some ''   '') = ([([], new_profile)], Done) \<and>
   refresh_profile_listbox [([], new_profile)] = [[]] \<and>
   add_coord [([], new_profile)] (Some []) ''Base'' ''1'' ''2'' ''3''
     = ([([], new_profile)], ShowInfo ''No profile'' ''Select or create a profile first.'') \<and>
   delete_profile [([], new_profile)] (Some []) True
     = ([([], new_profile)], ShowInfo ''No selection'' ''Select a profile to delete.'')"
  by (simp add: add_profile_def strip_def isspace_def new_profile_def refresh_profile_listbox_def
        add_coord_def delete_profile_def)

end
